theory Spec2Isabelle
  imports Main "HOL-Library.AList"
begin

section \<open>Python values, type descriptors and errors\<close>

text \<open>
  Cell values, column names, dictionaries and JSON trees live in one universe, as they do
  in Python. \<open>'w\<close> is the type of rich values (instances of subclasses of \<open>WBValue\<close>).
  A \<open>dict\<close> is an association list in insertion order with distinct keys; storing under a
  key that is present replaces the value in place, storing under a new key appends
  (\<open>AList.update\<close>). Numbers are integers in this model.
\<close>

datatype 'w py =
    PNone
  | PBool bool
  | PNum int
  | PStr string
  | PList "'w py list"
  | PDict "('w py \<times> 'w py) list"
  | PWB 'w

datatype prim = KNumber | KString | KBoolean | KNone | KBinary

text \<open>
  Modelled from the spec: the module \<open>wandb.sdk.interface._dtypes\<close> is not among the
  sources. The variants are those of the TypeDescriptor of section 3 of the specification,
  under the class names the source uses (\<open>UnknownType\<close>, \<open>InvalidType\<close>, \<open>ConstType\<close>,
  \<open>OptionalType\<close>, \<open>UnionType\<close>, \<open>DictType\<close> for the record of columns, whose parameter
  \<open>type_map\<close> the source updates in \<open>Table.cast\<close>).
\<close>

datatype 'w wbtype =
    UnknownType
  | InvalidType
  | ConstType "'w py"
  | PrimitiveType prim
  | OptionalType "'w wbtype"
  | UnionType "'w wbtype list"
  | DictType "('w py \<times> 'w wbtype) list"
  | CustomType string "'w wbtype list"

text \<open>
  The \<open>dtype\<close> argument of \<open>Table.cast\<close> is either an instance of a type descriptor or
  some other Python object (a class such as \<open>int\<close>), named here by a string.
\<close>

datatype 'w dtype = TypeInstance "'w wbtype" | NativeType string

datatype 'w error =
    ValueError_columns nat "'w py list"
  | TypeError_row string
  | TypeError_cast "'w py" "'w wbtype" "'w wbtype"
  | ValueError_index "'w py"
  | IndexError
  | KeyError string
  | TypeError_shape string
  | AssertionError string
  | AttributeError string
  | ValueError_period "'w py"
  | ValueError_destination
  | ValueError_parts "'w py list" "'w py list"
  | CollaboratorError string

datatype log_msg = Warning_truncating nat

text \<open>
  The operations of \<open>_dtypes\<close> that the source calls are parameters of the model:
  \<open>assign\<close> is \<open>Type.assign\<close> (it returns a descriptor and never raises, section 4.1 of the
  specification), \<open>explain\<close> is \<open>Type.explain\<close>, \<open>type_of\<close> is \<open>TypeRegistry.type_of\<close> and
  \<open>type_from_dtype\<close> is \<open>TypeRegistry.type_from_dtype\<close>.
\<close>

record 'w dtypes =
  assign :: "'w wbtype \<Rightarrow> 'w py \<Rightarrow> 'w wbtype"
  explain :: "'w wbtype \<Rightarrow> 'w py \<Rightarrow> string"
  type_of :: "'w py \<Rightarrow> 'w wbtype"
  type_from_dtype :: "'w dtype \<Rightarrow> 'w error + 'w wbtype"

section \<open>Table\<close>

text \<open>
  The attributes of a \<open>Table\<close>: \<open>columns\<close>, \<open>data\<close>, \<open>_column_types\<close>, and the attributes
  inherited from \<open>Media\<close> (class not among the sources) as one value of type \<open>'m\<close>.
  A method that mutates the table returns its outcome together with the table as the call
  leaves it, also when it raises.
\<close>

record ('w, 'm) table =
  columns :: "'w py list"
  data :: "'w py list list"
  column_types :: "'w wbtype"
  media :: 'm

definition MAX_ROWS :: nat where
  "MAX_ROWS = 10000"

definition MAX_ARTIFACT_ROWS :: nat where
  "MAX_ARTIFACT_ROWS = 200000"

text \<open>\<open>list.index\<close>: the position of the first element equal to \<open>x\<close>, if any.\<close>

fun index_of :: "'a \<Rightarrow> 'a list \<Rightarrow> nat option" where
  "index_of x [] = None"
| "index_of x (y # ys) =
     (if y = x then Some 0 else map_option Suc (index_of x ys))"

text \<open>The loop of \<open>Table.cast\<close> over \<open>self.data\<close>.\<close>

fun cast_rows :: "'w dtypes \<Rightarrow> 'w wbtype \<Rightarrow> nat \<Rightarrow> 'w py list list \<Rightarrow> 'w error + 'w wbtype" where
  "cast_rows dt wbtype col_ndx [] = Inr wbtype"
| "cast_rows dt wbtype col_ndx (row # rows) =
     (if col_ndx < length row then
        (let result_type = assign dt wbtype (row ! col_ndx) in
         if result_type = InvalidType
         then Inl (TypeError_cast (row ! col_ndx) (type_of dt (row ! col_ndx)) wbtype)
         else cast_rows dt result_type col_ndx rows)
      else Inl IndexError)"

text \<open>\<open>self._column_types.params["type_map"][col_name] = wbtype\<close>.\<close>

definition set_type_map :: "'w wbtype \<Rightarrow> 'w py \<Rightarrow> 'w wbtype \<Rightarrow> 'w error + 'w wbtype" where
  "set_type_map ct col_name wbtype =
     (case ct of
        DictType type_map \<Rightarrow> Inr (DictType (AList.update col_name wbtype type_map))
      | _ \<Rightarrow> Inl (KeyError ''type_map''))"

definition cast ::
  "'w dtypes \<Rightarrow> ('w, 'm) table \<Rightarrow> 'w py \<Rightarrow> 'w dtype \<Rightarrow> bool \<Rightarrow>
     ('w error + 'w wbtype) \<times> ('w, 'm) table" where
  "cast dt t col_name dtype optional =
     (case type_from_dtype dt dtype of
        Inl e \<Rightarrow> (Inl e, t)
      | Inr wbtype0 \<Rightarrow>
          (let wbtype = (if optional then OptionalType wbtype0 else wbtype0) in
           case index_of col_name (columns t) of
             None \<Rightarrow> (Inl (ValueError_index col_name), t)
           | Some col_ndx \<Rightarrow>
               (case cast_rows dt wbtype col_ndx (data t) of
                  Inl e \<Rightarrow> (Inl e, t)
                | Inr wbtype' \<Rightarrow>
                    (case set_type_map (column_types t) col_name wbtype' of
                       Inl e \<Rightarrow> (Inl e, t)
                     | Inr ct \<Rightarrow> (Inr wbtype', t\<lparr>column_types := ct\<rparr>)))))"

text \<open>
  The dict comprehension of \<open>Table._validate_data\<close>:
  \<open>{col_key: data[ndx] for ndx, col_key in enumerate(self.columns)}\<close>; \<open>data[ndx]\<close> raises
  IndexError when \<open>data\<close> is shorter than \<open>columns\<close>.
\<close>

fun incoming_data_dict ::
  "'w py list \<Rightarrow> 'w py list \<Rightarrow> ('w py \<times> 'w py) list \<Rightarrow> 'w error + ('w py \<times> 'w py) list" where
  "incoming_data_dict [] cells acc = Inr acc"
| "incoming_data_dict (col_key # cols) [] acc = Inl IndexError"
| "incoming_data_dict (col_key # cols) (c # cells) acc =
     incoming_data_dict cols cells (AList.update col_key c acc)"

definition validate_data ::
  "'w dtypes \<Rightarrow> ('w, 'm) table \<Rightarrow> 'w py list \<Rightarrow> ('w error + unit) \<times> ('w, 'm) table" where
  "validate_data dt t cells =
     (case incoming_data_dict (columns t) cells [] of
        Inl e \<Rightarrow> (Inl e, t)
      | Inr d \<Rightarrow>
          (let current_type = column_types t;
               result_type = assign dt current_type (PDict d) in
           if result_type = InvalidType
           then (Inl (TypeError_row (explain dt current_type (PDict d))), t)
           else (Inr (), t\<lparr>column_types := result_type\<rparr>)))"

definition add_data ::
  "'w dtypes \<Rightarrow> ('w, 'm) table \<Rightarrow> 'w py list \<Rightarrow> ('w error + unit) \<times> ('w, 'm) table" where
  "add_data dt t cells =
     (if length cells \<noteq> length (columns t)
      then (Inl (ValueError_columns (length (columns t)) (columns t)), t)
      else (case validate_data dt t cells of
              (Inl e, t') \<Rightarrow> (Inl e, t')
            | (Inr u, t') \<Rightarrow> (Inr (), t'\<lparr>data := data t' @ [cells]\<rparr>)))"


text \<open>The loop \<open>for row in data: self.add_data(*row)\<close> of the constructors.\<close>

fun add_rows ::
  "'w dtypes \<Rightarrow> ('w, 'm) table \<Rightarrow> 'w py list list \<Rightarrow> ('w error + unit) \<times> ('w, 'm) table" where
  "add_rows dt t [] = (Inr (), t)"
| "add_rows dt t (row # rows) =
     (case add_data dt t row of
        (Inl e, t') \<Rightarrow> (Inl e, t')
      | (Inr u, t') \<Rightarrow> add_rows dt t' rows)"

text \<open>
  \<open>Table._make_column_types\<close>: \<open>dtype\<close> and \<open>optional\<close> are one value for all columns or a
  list; the loop casts every column of \<open>zip(self.columns, optional, dtype)\<close>.
\<close>

datatype 'x one_or_list = One 'x | Many "'x list"

fun broadcast :: "nat \<Rightarrow> 'x one_or_list \<Rightarrow> 'x list" where
  "broadcast n (One x) = replicate n x"
| "broadcast n (Many xs) = xs"

fun cast_columns ::
  "'w dtypes \<Rightarrow> ('w, 'm) table \<Rightarrow> ('w py \<times> bool \<times> 'w dtype) list \<Rightarrow>
     ('w error + unit) \<times> ('w, 'm) table" where
  "cast_columns dt t [] = (Inr (), t)"
| "cast_columns dt t ((col_name, opt, d) # rest) =
     (case cast dt t col_name d opt of
        (Inl e, t') \<Rightarrow> (Inl e, t')
      | (Inr w, t') \<Rightarrow> cast_columns dt t' rest)"

definition make_column_types ::
  "'w dtypes \<Rightarrow> ('w, 'm) table \<Rightarrow> 'w dtype one_or_list option \<Rightarrow> bool one_or_list \<Rightarrow>
     ('w error + unit) \<times> ('w, 'm) table" where
  "make_column_types dt t dtype optional =
     (let dtype1 = (case dtype of None \<Rightarrow> One (TypeInstance UnknownType) | Some d \<Rightarrow> d);
          optional' = broadcast (length (columns t)) optional;
          dtype' = broadcast (length (columns t)) dtype1
      in cast_columns dt (t\<lparr>column_types := DictType []\<rparr>)
           (zip (columns t) (zip optional' dtype')))"

text \<open>\<open>Table._assert_valid_columns\<close> on a list (Python 3: \<open>str\<close> and \<open>int\<close>).\<close>

fun valid_col :: "'w py \<Rightarrow> bool" where
  "valid_col (PStr s) = True"
| "valid_col (PNum n) = True"
| "valid_col v = False"

definition init_from_list ::
  "'w dtypes \<Rightarrow> 'm \<Rightarrow> 'w py list list \<Rightarrow> 'w py list \<Rightarrow> bool one_or_list \<Rightarrow>
     'w dtype one_or_list option \<Rightarrow> 'w error + ('w, 'm) table" where
  "init_from_list dt m0 rows cols optional dtype =
     (if \<not> list_all valid_col cols
      then Inl (AssertionError ''columns argument expects list of strings or ints'')
      else
        (let t0 = \<lparr>columns = cols, data = [], column_types = DictType [], media = m0\<rparr> in
         case make_column_types dt t0 dtype optional of
           (Inl e, t1) \<Rightarrow> Inl e
         | (Inr u, t1) \<Rightarrow>
             (case add_rows dt t1 rows of
                (Inl e, t2) \<Rightarrow> Inl e
              | (Inr u', t2) \<Rightarrow> Inr t2)))"

text \<open>
  \<open>Table.__init__(columns=..., data=...)\<close> with \<open>data\<close> a list of lists and every other
  argument at its default (the call \<open>from_json\<close> makes): \<open>m0\<close> is what \<open>Media.__init__\<close>
  sets.
\<close>

definition Table_init ::
  "'w dtypes \<Rightarrow> 'm \<Rightarrow> 'w py list option \<Rightarrow> 'w py list list \<Rightarrow> 'w error + ('w, 'm) table" where
  "Table_init dt m0 cols rows =
     (let cols' = (case cols of
                     None \<Rightarrow> [PStr ''Input'', PStr ''Output'', PStr ''Expected'']
                   | Some cs \<Rightarrow> cs)
      in init_from_list dt m0 rows cols' (One True) None)"

subsection \<open>Equality\<close>

text \<open>
  \<open>!=\<close> on two cells and on two type descriptors is decided by classes that are not among
  the sources (and by the interpreter): both are parameters. Column names are \<open>str\<close> or
  \<open>int\<close>, on lists of which \<open>!=\<close> is structural.
\<close>

record 'w comparisons =
  cell_ne :: "'w py \<Rightarrow> 'w py \<Rightarrow> bool"
  type_ne :: "'w wbtype \<Rightarrow> 'w wbtype \<Rightarrow> bool"

text \<open>
  The inner and the outer loop of \<open>Table.__eq__\<close>; \<open>other.data[r][c]\<close> may raise. The other
  operand is a Table here, so the test \<open>isinstance(other, Table)\<close> holds.
\<close>

fun cells_eq :: "'w comparisons \<Rightarrow> 'w py list \<Rightarrow> 'w py list \<Rightarrow> 'w error + bool" where
  "cells_eq cmp [] ys = Inr True"
| "cells_eq cmp (x # xs) [] = Inl IndexError"
| "cells_eq cmp (x # xs) (y # ys) =
     (if cell_ne cmp x y then Inr False else cells_eq cmp xs ys)"

fun rows_eq :: "'w comparisons \<Rightarrow> 'w py list list \<Rightarrow> 'w py list list \<Rightarrow> 'w error + bool" where
  "rows_eq cmp [] rs' = Inr True"
| "rows_eq cmp (r # rs) [] = Inl IndexError"
| "rows_eq cmp (r # rs) (r' # rs') =
     (case cells_eq cmp r r' of
        Inl e \<Rightarrow> Inl e
      | Inr b \<Rightarrow> if b then rows_eq cmp rs rs' else Inr False)"

definition table_eq ::
  "'w comparisons \<Rightarrow> ('w, 'm) table \<Rightarrow> ('w, 'm) table \<Rightarrow> 'w error + bool" where
  "table_eq cmp self other =
     (if length (data self) \<noteq> length (data other)
         \<or> columns self \<noteq> columns other
         \<or> type_ne cmp (column_types self) (column_types other)
      then Inr False
      else rows_eq cmp (data self) (data other))"


section \<open>Serialization of a Table\<close>

text \<open>
  A destination is a \<open>wandb_run.Run\<close>, a \<open>wandb_artifacts.Artifact\<close> or an object of
  neither class. \<open>'r\<close> and \<open>'a\<close> are the states of a run and of an artifact (its manifest).
\<close>

datatype ('r, 'a) dest = Run 'r | Artifact 'a | OtherDest

text \<open>
  The collaborators of the serialization that are not among the sources, as parameters;
  those that receive the artifact return it as they leave it.
  \<^item> \<open>media_to_json_run\<close>, \<open>media_to_json_artifact\<close>, \<open>media_to_json_other\<close>:
    \<open>Media.to_json\<close> (the \<open>super\<close> call of \<open>Table.to_json\<close>) on each kind of destination;
    it returns the base fields.
  \<^item> \<open>wb_to_json\<close>: \<open>to_json(artifact)\<close> of a rich value in a cell.
  \<^item> \<open>json_friendly\<close>: the first component of \<open>util.json_friendly\<close>.
  \<^item> \<open>type_to_json\<close>, \<open>type_from_dict\<close>: \<open>Type.to_json\<close> and \<open>TypeRegistry.type_from_dict\<close>.
  \<^item> \<open>init_from_json\<close>: \<open>WBValue.init_from_json\<close>, which returns a rich value or \<open>None\<close>.
  \<^item> \<open>media_init\<close>: the attributes \<open>Media.__init__\<close> sets.
\<close>

record ('w, 'm, 'r, 'a) codec =
  media_to_json_run :: "'m \<Rightarrow> 'r \<Rightarrow> ('w error + ('w py \<times> 'w py) list) \<times> 'r"
  media_to_json_artifact :: "'m \<Rightarrow> 'a \<Rightarrow> ('w error + ('w py \<times> 'w py) list) \<times> 'a"
  media_to_json_other :: "'m \<Rightarrow> 'w error + ('w py \<times> 'w py) list"
  wb_to_json :: "'w \<Rightarrow> 'a \<Rightarrow> ('w error + 'w py) \<times> 'a"
  json_friendly :: "'w py \<Rightarrow> 'w py"
  type_to_json :: "'w wbtype \<Rightarrow> 'a \<Rightarrow> ('w error + 'w py) \<times> 'a"
  type_from_dict :: "'w py \<Rightarrow> 'a \<Rightarrow> 'w error + 'w wbtype"
  init_from_json :: "('w py \<times> 'w py) list \<Rightarrow> 'a \<Rightarrow> 'w error + 'w option"
  media_init :: 'm

text \<open>
  \<open>Table._to_table_json\<close>: the warnings it logs and the dict it returns. It has no
  raising path.
\<close>

definition to_table_json ::
  "('w, 'm) table \<Rightarrow> nat option \<Rightarrow> log_msg list \<times> ('w py \<times> 'w py) list" where
  "to_table_json t max_rows =
     (let max_rows' = (case max_rows of None \<Rightarrow> MAX_ROWS | Some n \<Rightarrow> n) in
      (if length (data t) > max_rows' then [Warning_truncating max_rows'] else [],
       [(PStr ''columns'', PList (columns t)),
        (PStr ''data'', PList (map PList (take max_rows' (data t))))]))"

text \<open>\<open>dict.update\<close> with the items of another dict, in their order.\<close>

definition dict_update :: "('k \<times> 'v) list \<Rightarrow> ('k \<times> 'v) list \<Rightarrow> ('k \<times> 'v) list" where
  "dict_update d items = fold (\<lambda>(k, v) acc. AList.update k v acc) items d"

text \<open>The column-name check of the artifact branch: the first offending column raises.\<close>

fun check_columns :: "'w py list \<Rightarrow> 'w error option" where
  "check_columns [] = None"
| "check_columns (PStr s # cs) =
     (if CHR ''.'' \<in> set s then Some (ValueError_period (PStr s)) else check_columns cs)"
| "check_columns (c # cs) = check_columns cs"

text \<open>
  The local function \<open>json_helper\<close> of \<open>Table.to_json\<close>, and its loop over the keys of a
  dict.
\<close>

fun json_helper ::
    "('w, 'm, 'r, 'a) codec \<Rightarrow> 'w py \<Rightarrow> 'a \<Rightarrow> ('w error + 'w py) \<times> 'a"
  and json_helper_items ::
    "('w, 'm, 'r, 'a) codec \<Rightarrow> ('w py \<times> 'w py) list \<Rightarrow> ('w py \<times> 'w py) list \<Rightarrow> 'a \<Rightarrow>
       ('w error + ('w py \<times> 'w py) list) \<times> 'a" where
  "json_helper cd (PWB w) a = wb_to_json cd w a"
| "json_helper cd (PDict d) a =
     (case json_helper_items cd d [] a of
        (Inl e, a') \<Rightarrow> (Inl e, a')
      | (Inr res, a') \<Rightarrow> (Inr (PDict res), a'))"
| "json_helper cd PNone a = (Inr (json_friendly cd PNone), a)"
| "json_helper cd (PBool b) a = (Inr (json_friendly cd (PBool b)), a)"
| "json_helper cd (PNum n) a = (Inr (json_friendly cd (PNum n)), a)"
| "json_helper cd (PStr s) a = (Inr (json_friendly cd (PStr s)), a)"
| "json_helper cd (PList vs) a = (Inr (json_friendly cd (PList vs)), a)"
| "json_helper_items cd [] res a = (Inr res, a)"
| "json_helper_items cd ((key, v) # kvs) res a =
     (case json_helper cd v a of
        (Inl e, a') \<Rightarrow> (Inl e, a')
      | (Inr j, a') \<Rightarrow> json_helper_items cd kvs (AList.update key j res) a')"

text \<open>
  A loop that appends \<open>f(x)\<close> for every \<open>x\<close> of a list, where \<open>f\<close> may raise and changes the
  state \<open>a\<close>: the first exception ends the loop.
\<close>

fun map_loop ::
  "('x \<Rightarrow> 'a \<Rightarrow> ('e + 'y) \<times> 'a) \<Rightarrow> 'x list \<Rightarrow> 'a \<Rightarrow> ('e + 'y list) \<times> 'a" where
  "map_loop f [] a = (Inr [], a)"
| "map_loop f (x # xs) a =
     (case f x a of
        (Inl e, a') \<Rightarrow> (Inl e, a')
      | (Inr y, a') \<Rightarrow>
          (case map_loop f xs a' of
             (Inl e, a'') \<Rightarrow> (Inl e, a'')
           | (Inr ys, a'') \<Rightarrow> (Inr (y # ys), a'')))"

definition map_rows ::
  "('w, 'm, 'r, 'a) codec \<Rightarrow> 'w py list list \<Rightarrow> 'a \<Rightarrow> ('w error + 'w py list list) \<times> 'a" where
  "map_rows cd rows a = map_loop (map_loop (json_helper cd)) rows a"

text \<open>
  \<open>Table.to_json\<close>: the warnings logged, the outcome, and the destination as the call
  leaves it. The \<open>super\<close> call comes first, on every kind of destination. In the artifact
  branch \<open>rows\<close> is what the dict of \<open>_to_table_json\<close> holds under "data".
\<close>

fun to_json ::
  "('w, 'm, 'r, 'a) codec \<Rightarrow> ('w, 'm) table \<Rightarrow> ('r, 'a) dest \<Rightarrow>
     log_msg list \<times> ('w error + ('w py \<times> 'w py) list) \<times> ('r, 'a) dest" where
  "to_json cd t (Run r) =
     (case media_to_json_run cd (media t) r of
        (Inl e, r') \<Rightarrow> ([], Inl e, Run r')
      | (Inr json_dict, r') \<Rightarrow>
          ([], Inr (dict_update json_dict
                 [(PStr ''_type'', PStr ''table-file''),
                  (PStr ''ncols'', PNum (int (length (columns t)))),
                  (PStr ''nrows'', PNum (int (length (data t))))]), Run r'))"
| "to_json cd t (Artifact a) =
     (case media_to_json_artifact cd (media t) a of
        (Inl e, a1) \<Rightarrow> ([], Inl e, Artifact a1)
      | (Inr json_dict, a1) \<Rightarrow>
          (case check_columns (columns t) of
             Some e \<Rightarrow> ([], Inl e, Artifact a1)
           | None \<Rightarrow>
               (let (log, tj) = to_table_json t (Some MAX_ARTIFACT_ROWS);
                    rows = take MAX_ARTIFACT_ROWS (data t)
                in case map_rows cd rows a1 of
                     (Inl e, a2) \<Rightarrow> (log, Inl e, Artifact a2)
                   | (Inr mapped_data, a2) \<Rightarrow>
                       (case type_to_json cd (column_types t) a2 of
                          (Inl e, a3) \<Rightarrow> (log, Inl e, Artifact a3)
                        | (Inr ctj, a3) \<Rightarrow>
                            (log, Inr (dict_update json_dict
                                   [(PStr ''_type'', PStr ''table''),
                                    (PStr ''columns'', PList (columns t)),
                                    (PStr ''data'', PList (map PList mapped_data)),
                                    (PStr ''ncols'', PNum (int (length (columns t)))),
                                    (PStr ''nrows'', PNum (int (length mapped_data))),
                                    (PStr ''column_types'', ctj)]), Artifact a3)))))"
| "to_json cd t OtherDest =
     (case media_to_json_other cd (media t) of
        Inl e \<Rightarrow> ([], Inl e, OtherDest)
      | Inr json_dict \<Rightarrow> ([], Inl ValueError_destination, OtherDest))"

text \<open>
  \<open>Table.from_json\<close>. The loops read \<open>json_obj["data"]\<close> as a list of lists, the shape
  \<open>to_json\<close> writes; any other shape is reported as \<open>TypeError_shape\<close> (Python would raise
  or iterate over the object, which this model does not follow).
\<close>

definition decode_cell ::
  "('w, 'm, 'r, 'a) codec \<Rightarrow> 'a \<Rightarrow> 'w py \<Rightarrow> 'w error + 'w py" where
  "decode_cell cd source_artifact item =
     (case item of
        PDict d \<Rightarrow>
          (case init_from_json cd d source_artifact of
             Inl e \<Rightarrow> Inl e
           | Inr None \<Rightarrow> Inr item
           | Inr (Some obj) \<Rightarrow> Inr (PWB obj))
      | _ \<Rightarrow> Inr item)"

fun decode_row ::
  "('w, 'm, 'r, 'a) codec \<Rightarrow> 'a \<Rightarrow> 'w py list \<Rightarrow> 'w error + 'w py list" where
  "decode_row cd src [] = Inr []"
| "decode_row cd src (item # items) =
     (case decode_cell cd src item of
        Inl e \<Rightarrow> Inl e
      | Inr cell \<Rightarrow>
          (case decode_row cd src items of
             Inl e \<Rightarrow> Inl e
           | Inr row_data \<Rightarrow> Inr (cell # row_data)))"

fun decode_rows ::
  "('w, 'm, 'r, 'a) codec \<Rightarrow> 'a \<Rightarrow> 'w py list \<Rightarrow> 'w error + 'w py list list" where
  "decode_rows cd src [] = Inr []"
| "decode_rows cd src (PList row # rows) =
     (case decode_row cd src row of
        Inl e \<Rightarrow> Inl e
      | Inr row_data \<Rightarrow>
          (case decode_rows cd src rows of
             Inl e \<Rightarrow> Inl e
           | Inr rest \<Rightarrow> Inr (row_data # rest)))"
| "decode_rows cd src (v # rows) = Inl (TypeError_shape ''row'')"

definition from_json ::
  "'w dtypes \<Rightarrow> ('w, 'm, 'r, 'a) codec \<Rightarrow> ('w py \<times> 'w py) list \<Rightarrow> 'a \<Rightarrow>
     'w error + ('w, 'm) table" where
  "from_json dt cd json_obj source_artifact =
     (case map_of json_obj (PStr ''data'') of
        None \<Rightarrow> Inl (KeyError ''data'')
      | Some (PList jrows) \<Rightarrow>
          (case decode_rows cd source_artifact jrows of
             Inl e \<Rightarrow> Inl e
           | Inr rows \<Rightarrow>
               (case (case map_of json_obj (PStr ''columns'') of
                        None \<Rightarrow> Inl (KeyError ''columns'')
                      | Some PNone \<Rightarrow> Table_init dt (media_init cd) None rows
                      | Some (PList cs) \<Rightarrow> Table_init dt (media_init cd) (Some cs) rows
                      | Some v \<Rightarrow> Inl (AssertionError ''columns argument expects a list object''))
                of
                  Inl e \<Rightarrow> Inl e
                | Inr new_obj \<Rightarrow>
                    (case map_of json_obj (PStr ''column_types'') of
                       None \<Rightarrow> Inr new_obj
                     | Some PNone \<Rightarrow> Inr new_obj
                     | Some ctj \<Rightarrow>
                         (case type_from_dict cd ctj source_artifact of
                            Inl e \<Rightarrow> Inl e
                          | Inr ct \<Rightarrow> Inr (new_obj\<lparr>column_types := ct\<rparr>)))))
      | Some v \<Rightarrow> Inl (TypeError_shape ''data''))"


section \<open>PartitionedTable\<close>

text \<open>
  \<open>PartitionedTable._loaded_part_entries\<close> is a dict from the path of an entry to its
  \<open>_PartitionTablePartEntry\<close>, of which the model keeps the attribute \<open>_part\<close>: \<open>None\<close>, or
  the table that was loaded. The source artifact is read through \<open>src\<close>, which is
  \<open>source_artifact.get\<close>: it returns the table stored under a path, or \<open>None\<close>.
\<close>

type_synonym ('w, 'm) parts = "(string \<times> ('w, 'm) table option) list"

text \<open>\<open>PartitionedTable._add_part_entry\<close>: a new entry has no part loaded.\<close>

definition add_part_entry :: "('w, 'm) parts \<Rightarrow> string \<Rightarrow> ('w, 'm) parts" where
  "add_part_entry pt entry_path = AList.update entry_path None pt"

text \<open>\<open>_PartitionTablePartEntry.get_part\<close> and \<open>free\<close>, on the entry stored under a path.\<close>

definition get_part ::
  "(string \<Rightarrow> ('w, 'm) table option) \<Rightarrow> ('w, 'm) parts \<Rightarrow> string \<Rightarrow> ('w, 'm) parts" where
  "get_part src pt entry_path =
     (case map_of pt entry_path of
        Some None \<Rightarrow> AList.update entry_path (src entry_path) pt
      | _ \<Rightarrow> pt)"

definition free :: "('w, 'm) parts \<Rightarrow> string \<Rightarrow> ('w, 'm) parts" where
  "free pt entry_path =
     (case map_of pt entry_path of
        Some p \<Rightarrow> AList.update entry_path None pt
      | None \<Rightarrow> pt)"

text \<open>
  \<open>PartitionedTable.iterrows\<close> is a generator. The model lists what it does in order, each
  event with the entries as they are after it: the part of an entry is fetched, a pair of
  index and row is yielded, an entry is freed, an exception is raised. A consumer that
  stops early has seen a prefix of this list.
\<close>

datatype 'w event =
    Got string
  | Yielded nat "'w py list"
  | Freed string
  | Raised "'w error"

fun yield_rows ::
  "nat \<Rightarrow> 'w py list list \<Rightarrow> ('w, 'm) parts \<Rightarrow> ('w event \<times> ('w, 'm) parts) list" where
  "yield_rows ndx [] pt = []"
| "yield_rows ndx (row # rows) pt = (Yielded ndx row, pt) # yield_rows (Suc ndx) rows pt"

fun iter_parts ::
  "(string \<Rightarrow> ('w, 'm) table option) \<Rightarrow> string list \<Rightarrow> 'w py list option \<Rightarrow> nat \<Rightarrow>
     ('w, 'm) parts \<Rightarrow> ('w event \<times> ('w, 'm) parts) list" where
  "iter_parts src [] cols ndx pt = []"
| "iter_parts src (entry_path # rest) cols ndx pt =
     (let pt1 = get_part src pt entry_path in
      case map_of pt1 entry_path of
        None \<Rightarrow> [(Raised (KeyError entry_path), pt)]
      | Some None \<Rightarrow> [(Got entry_path, pt1), (Raised (AttributeError ''columns''), pt1)]
      | Some (Some part) \<Rightarrow>
          (case cols of
             None \<Rightarrow>
               (Got entry_path, pt1) # yield_rows ndx (data part) pt1
                 @ (Freed entry_path, free pt1 entry_path)
                 # iter_parts src rest (Some (columns part)) (ndx + length (data part))
                     (free pt1 entry_path)
           | Some c \<Rightarrow>
               if c \<noteq> columns part
               then [(Got entry_path, pt1), (Raised (ValueError_parts c (columns part)), pt1)]
               else
                 (Got entry_path, pt1) # yield_rows ndx (data part) pt1
                   @ (Freed entry_path, free pt1 entry_path)
                   # iter_parts src rest (Some c) (ndx + length (data part))
                       (free pt1 entry_path)))"

definition iterrows ::
  "(string \<Rightarrow> ('w, 'm) table option) \<Rightarrow> ('w, 'm) parts \<Rightarrow>
     ('w event \<times> ('w, 'm) parts) list" where
  "iterrows src pt = iter_parts src (map fst pt) None 0 pt"

text \<open>What a consumer receives, and the entries whose part is in memory.\<close>

fun yields :: "('w event \<times> 's) list \<Rightarrow> (nat \<times> 'w py list) list" where
  "yields [] = []"
| "yields ((Yielded ndx row, st) # tr) = (ndx, row) # yields tr"
| "yields (ev # tr) = yields tr"

fun raised :: "('w event \<times> 's) list \<Rightarrow> 'w error option" where
  "raised [] = None"
| "raised ((Raised e, st) # tr) = Some e"
| "raised (ev # tr) = raised tr"


section \<open>Staging: bind_to_run\<close>

text \<open>
  The collaborators of \<open>bind_to_run\<close> that are not among the sources, as parameters:
  \<open>media_tmp\<close> is \<open>MEDIA_TMP.name\<close>; \<open>generate_id n\<close> is what the \<open>n\<close>-th call of
  \<open>util.generate_id\<close> returns; \<open>json_dump_safer\<close> is the exception \<open>util.json_dump_safer\<close>
  raises on a payload, if any;
  \<open>set_file\<close> is \<open>Media._set_file\<close>, \<open>is_bound\<close> is \<open>Media.is_bound\<close> and
  \<open>media_bind_to_run\<close> is \<open>Media.bind_to_run\<close>, which acts on the run. \<open>'b\<close> is the type of
  the arguments of \<open>bind_to_run\<close> (run, key, step).
\<close>

record ('w, 'm, 'r, 'b) staging =
  media_tmp :: string
  generate_id :: "nat \<Rightarrow> string"
  json_dump_safer :: "'w py \<Rightarrow> 'w error option"
  set_file :: "(string \<times> 'w py option) list \<Rightarrow> 'm \<Rightarrow> string \<Rightarrow> bool \<Rightarrow> string \<Rightarrow>
                 ('w error + unit) \<times> 'm"
  is_bound :: "'m \<Rightarrow> bool"
  media_bind_to_run :: "'b \<Rightarrow> 'm \<Rightarrow> 'r \<Rightarrow> ('w error + unit) \<times> 'm \<times> 'r"

text \<open>
  What \<open>bind_to_run\<close> acts on besides the value: the number of ids drawn so far, the files
  it has opened for writing in the staging directory, in order (the path, and the payload
  dumped into the file, or \<open>None\<close> when the dump raised), and the run.
\<close>

record ('w, 'r) world =
  ids_drawn :: nat
  written :: "(string \<times> 'w py option) list"
  run_state :: 'r

text \<open>\<open>numpy_arrays_to_lists\<close> on values without numpy arrays.\<close>

fun numpy_arrays_to_lists :: "'w py \<Rightarrow> 'w py"
  and numpy_items :: "('w py \<times> 'w py) list \<Rightarrow> ('w py \<times> 'w py) list \<Rightarrow> ('w py \<times> 'w py) list" where
  "numpy_arrays_to_lists (PDict d) = PDict (numpy_items d [])"
| "numpy_arrays_to_lists (PList vs) = PList (map numpy_arrays_to_lists vs)"
| "numpy_arrays_to_lists PNone = PNone"
| "numpy_arrays_to_lists (PBool b) = PBool b"
| "numpy_arrays_to_lists (PNum n) = PNum n"
| "numpy_arrays_to_lists (PStr s) = PStr s"
| "numpy_arrays_to_lists (PWB w) = PWB w"
| "numpy_items [] res = res"
| "numpy_items ((key, v) # kvs) res =
     numpy_items kvs (AList.update key (numpy_arrays_to_lists v) res)"

text \<open>
  The part \<open>Table.bind_to_run\<close> and \<open>Graph.bind_to_run\<close> share: draw an id, write the
  payload to a new file of the staging directory, call \<open>_set_file\<close> on it.
\<close>

definition stage_payload ::
  "('w, 'm, 'r, 'b) staging \<Rightarrow> 'w py \<Rightarrow> string \<Rightarrow> 'm \<Rightarrow> ('w, 'r) world \<Rightarrow>
     ('w error + unit) \<times> 'm \<times> ('w, 'r) world" where
  "stage_payload sg payload extension m w =
     (let tmp_path = media_tmp sg @ ''/'' @ generate_id sg (ids_drawn w) @ extension;
          w1 = w\<lparr>ids_drawn := Suc (ids_drawn w)\<rparr>;
          payload' = numpy_arrays_to_lists payload
      in case json_dump_safer sg payload' of
           Some e \<Rightarrow> (Inl e, m, w1\<lparr>written := written w1 @ [(tmp_path, None)]\<rparr>)
         | None \<Rightarrow>
             (let w2 = w1\<lparr>written := written w1 @ [(tmp_path, Some payload')]\<rparr> in
              case set_file sg (written w2) m tmp_path True extension of
                (r, m1) \<Rightarrow> (r, m1, w2)))"

definition bind_to_run ::
  "('w, 'm, 'r, 'b) staging \<Rightarrow> ('w, 'm) table \<Rightarrow> 'b \<Rightarrow> ('w, 'r) world \<Rightarrow>
     log_msg list \<times> ('w error + unit) \<times> ('w, 'm) table \<times> ('w, 'r) world" where
  "bind_to_run sg t args w =
     (let (log, tj) = to_table_json t None in
      case stage_payload sg (PDict tj) ''.table.json'' (media t) w of
        (Inl e, m1, w1) \<Rightarrow> (log, Inl e, t\<lparr>media := m1\<rparr>, w1)
      | (Inr u, m1, w1) \<Rightarrow>
          (case media_bind_to_run sg args m1 (run_state w1) of
             (r, m2, run') \<Rightarrow> (log, r, t\<lparr>media := m2\<rparr>, w1\<lparr>run_state := run'\<rparr>)))"

text \<open>
  A \<open>Graph\<close>: the value \<open>_to_graph_json\<close> returns for it, and its \<open>Media\<close> attributes.
\<close>

record ('w, 'm) graph =
  graph_json :: "'w py"
  gmedia :: 'm

definition graph_bind_to_run ::
  "('w, 'm, 'r, 'b) staging \<Rightarrow> ('w, 'm) graph \<Rightarrow> 'b \<Rightarrow> ('w, 'r) world \<Rightarrow>
     ('w error + unit) \<times> ('w, 'm) graph \<times> ('w, 'r) world" where
  "graph_bind_to_run sg g args w =
     (case stage_payload sg (graph_json g) ''.graph.json'' (gmedia g) w of
        (Inl e, m1, w1) \<Rightarrow> (Inl e, g\<lparr>gmedia := m1\<rparr>, w1)
      | (Inr u, m1, w1) \<Rightarrow>
          if is_bound sg m1 then (Inr (), g\<lparr>gmedia := m1\<rparr>, w1)
          else
            (case media_bind_to_run sg args m1 (run_state w1) of
               (r, m2, run') \<Rightarrow> (r, g\<lparr>gmedia := m2\<rparr>, w1\<lparr>run_state := run'\<rparr>)))"


section \<open>An instance of the collaborators\<close>

text \<open>
  Modelled from the spec: \<open>typeOf\<close> and the narrowing \<open>assign\<close> of section 3 of the
  specification (the module \<open>_dtypes\<close> is not among the sources), with rich values named by
  their kind. The concrete examples below run the operations of the source on this instance.
  A list cannot be typed; no custom kind is registered, so a \<open>CustomType\<close> accepts nothing.
\<close>

fun spec_type_of :: "string py \<Rightarrow> string wbtype" where
  "spec_type_of PNone = PrimitiveType KNone"
| "spec_type_of (PBool b) = PrimitiveType KBoolean"
| "spec_type_of (PNum n) = PrimitiveType KNumber"
| "spec_type_of (PStr s) = PrimitiveType KString"
| "spec_type_of (PList vs) = InvalidType"
| "spec_type_of (PDict d) = DictType (map (\<lambda>(k, v). (k, spec_type_of v)) d)"
| "spec_type_of (PWB w) = CustomType w []"

definition wrap_optional :: "'w wbtype \<Rightarrow> 'w wbtype" where
  "wrap_optional t = (case t of OptionalType i \<Rightarrow> t | _ \<Rightarrow> OptionalType t)"

fun spec_assign :: "string wbtype \<Rightarrow> string py \<Rightarrow> string wbtype"
  and assign_union :: "string wbtype list \<Rightarrow> string py \<Rightarrow> string wbtype list option"
  and assign_fields ::
    "(string py \<times> string wbtype) list \<Rightarrow> (string py \<times> string py) list \<Rightarrow>
       (string py \<times> string wbtype) list option" where
  "spec_assign UnknownType v = spec_type_of v"
| "spec_assign InvalidType v = InvalidType"
| "spec_assign (ConstType c) v = (if v = c then ConstType c else InvalidType)"
| "spec_assign (PrimitiveType k) v =
     (if spec_type_of v = PrimitiveType k then PrimitiveType k else InvalidType)"
| "spec_assign (OptionalType inner) v =
     (if v = PNone then OptionalType inner
      else (let r = spec_assign inner v in
            if r = InvalidType then InvalidType else OptionalType r))"
| "spec_assign (UnionType members) v =
     (case assign_union members v of
        Some members' \<Rightarrow> UnionType members'
      | None \<Rightarrow>
          if spec_type_of v = InvalidType then InvalidType
          else UnionType (members @ [spec_type_of v]))"
| "spec_assign (DictType fs) v =
     (case v of
        PDict d \<Rightarrow>
          (case assign_fields fs d of
             None \<Rightarrow> InvalidType
           | Some fs' \<Rightarrow>
               DictType (fs' @
                 map (\<lambda>(k, x). (k, OptionalType (spec_type_of x)))
                   (filter (\<lambda>(k, x). map_of fs k = None) d)))
      | _ \<Rightarrow> InvalidType)"
| "spec_assign (CustomType tag ps) v = InvalidType"
| "assign_union [] v = None"
| "assign_union (m # ms) v =
     (let r = spec_assign m v in
      if r = InvalidType then map_option (Cons m) (assign_union ms v)
      else Some (r # ms))"
| "assign_fields [] d = Some []"
| "assign_fields ((k, ft) # fs) d =
     (case map_of d k of
        None \<Rightarrow> map_option (Cons (k, wrap_optional ft)) (assign_fields fs d)
      | Some v \<Rightarrow>
          (let r = spec_assign ft v in
           if r = InvalidType then None
           else map_option (Cons (k, r)) (assign_fields fs d)))"

definition spec_dtypes :: "string dtypes" where
  "spec_dtypes =
     \<lparr>assign = spec_assign,
      explain = (\<lambda>t v. ''cannot assign''),
      type_of = spec_type_of,
      type_from_dtype = (\<lambda>d. case d of
                           TypeInstance t \<Rightarrow> Inr t
                         | NativeType n \<Rightarrow> Inl (CollaboratorError n))\<rparr>"

text \<open>
  The mapping of column name to cell that \<open>add_data\<close> narrows against, in closed form.
\<close>

definition row_dict :: "'w py list \<Rightarrow> 'w py list \<Rightarrow> ('w py \<times> 'w py) list" where
  "row_dict cols cells = fold (\<lambda>(k, c) acc. AList.update k c acc) (zip cols cells) []"

text \<open>
  The tables of the concrete scenario of the specification: \<open>Table(columns=["a","b"])\<close>
  with unknown column types, and the same after \<open>add_data(1, "x")\<close>.
\<close>

definition t_ab :: "(string, unit) table" where
  "t_ab = \<lparr>columns = [PStr ''a'', PStr ''b''], data = [],
          column_types = DictType [(PStr ''a'', UnknownType), (PStr ''b'', UnknownType)],
          media = ()\<rparr>"

definition t_ab1 :: "(string, unit) table" where
  "t_ab1 = \<lparr>columns = [PStr ''a'', PStr ''b''], data = [[PNum 1, PStr ''x'']],
           column_types = DictType [(PStr ''a'', PrimitiveType KNumber),
                                    (PStr ''b'', PrimitiveType KString)],
           media = ()\<rparr>"


text \<open>The values of one column, row by row.\<close>

definition column_values :: "nat \<Rightarrow> 'w py list list \<Rightarrow> 'w py list" where
  "column_values c rows = map (\<lambda>row. row ! c) rows"

text \<open>
  The invariant of a Table in section 3 of the specification: the length of every row is
  the number of columns.
\<close>

definition wf_table :: "('w, 'm) table \<Rightarrow> bool" where
  "wf_table t = list_all (\<lambda>row. length row = length (columns t)) (data t)"

text \<open>
  Modelled from the spec: equality of type descriptors is structural (section 4.1); cells of
  the instance are compared structurally as well.
\<close>

definition spec_comparisons :: "string comparisons" where
  "spec_comparisons = \<lparr>cell_ne = (\<lambda>x y. x \<noteq> y), type_ne = (\<lambda>x y. x \<noteq> y)\<rparr>"

text \<open>
  Modelled from the spec: the JSON form of a type descriptor and the way back (section 4.1:
  serialization round-trips every variant). The specification does not fix the shape; the
  instance writes a list that starts with the name of the variant.
\<close>

fun prim_name :: "prim \<Rightarrow> string" where
  "prim_name KNumber = ''number''"
| "prim_name KString = ''string''"
| "prim_name KBoolean = ''boolean''"
| "prim_name KNone = ''none''"
| "prim_name KBinary = ''binary''"

definition prim_of :: "string \<Rightarrow> prim option" where
  "prim_of n =
     (if n = ''number'' then Some KNumber
      else if n = ''string'' then Some KString
      else if n = ''boolean'' then Some KBoolean
      else if n = ''none'' then Some KNone
      else if n = ''binary'' then Some KBinary
      else None)"

fun enc :: "string wbtype \<Rightarrow> string py" where
  "enc UnknownType = PList [PStr ''unknown'']"
| "enc InvalidType = PList [PStr ''invalid'']"
| "enc (ConstType c) = PList [PStr ''const'', c]"
| "enc (PrimitiveType k) = PList [PStr ''primitive'', PStr (prim_name k)]"
| "enc (OptionalType t) = PList [PStr ''optional'', enc t]"
| "enc (UnionType ts) = PList [PStr ''union'', PList (map enc ts)]"
| "enc (DictType fs) = PList [PStr ''record'', PList (map (\<lambda>(k, t). PList [k, enc t]) fs)]"
| "enc (CustomType s ts) = PList [PStr ''custom'', PStr s, PList (map enc ts)]"

fun dec :: "string py \<Rightarrow> string wbtype option"
  and dec_list :: "string py list \<Rightarrow> string wbtype list option"
  and dec_fields :: "string py list \<Rightarrow> (string py \<times> string wbtype) list option" where
  "dec (PList xs) =
     (case xs of
        [PStr tag] \<Rightarrow>
          if tag = ''unknown'' then Some UnknownType
          else if tag = ''invalid'' then Some InvalidType
          else None
      | [PStr tag, x] \<Rightarrow>
          if tag = ''const'' then Some (ConstType x)
          else if tag = ''primitive''
          then (case x of PStr n \<Rightarrow> map_option PrimitiveType (prim_of n) | _ \<Rightarrow> None)
          else if tag = ''optional'' then map_option OptionalType (dec x)
          else if tag = ''union''
          then (case x of PList ys \<Rightarrow> map_option UnionType (dec_list ys) | _ \<Rightarrow> None)
          else if tag = ''record''
          then (case x of PList ys \<Rightarrow> map_option DictType (dec_fields ys) | _ \<Rightarrow> None)
          else None
      | [PStr tag, PStr s, PList ys] \<Rightarrow>
          if tag = ''custom'' then map_option (CustomType s) (dec_list ys) else None
      | _ \<Rightarrow> None)"
| "dec v = None"
| "dec_list [] = Some []"
| "dec_list (x # xs) =
     (case dec x of
        None \<Rightarrow> None
      | Some t \<Rightarrow> map_option (Cons t) (dec_list xs))"
| "dec_fields [] = Some []"
| "dec_fields (x # xs) =
     (case x of
        PList [k, y] \<Rightarrow>
          (case dec y of
             None \<Rightarrow> None
           | Some t \<Rightarrow> map_option (Cons (k, t)) (dec_fields xs))
      | _ \<Rightarrow> None)"

text \<open>
  Modelled from the spec: an instance of the collaborators of the serialization (sections
  4.4 and 6). The base fields toward a run carry the kind tag and the relative path; a rich
  value in a cell registers itself in the manifest, a list of names, and is read back only
  if the manifest has it; the state of a run is the list of what was bound to it.
\<close>

definition spec_codec :: "(string, unit, string list, string list) codec" where
  "spec_codec =
     \<lparr>media_to_json_run = (\<lambda>m r. (Inr [(PStr ''_type'', PStr ''file''),
                                       (PStr ''path'', PStr ''media/table/t.table.json'')], r)),
      media_to_json_artifact = (\<lambda>m a. (Inr [], a)),
      media_to_json_other = (\<lambda>m. Inr []),
      wb_to_json = (\<lambda>w a. (Inr (PDict [(PStr ''_type'', PStr w)]), a @ [w])),
      json_friendly = (\<lambda>v. v),
      type_to_json = (\<lambda>t a. (Inr (enc t), a)),
      type_from_dict = (\<lambda>j a. case dec j of
                                 None \<Rightarrow> Inl (CollaboratorError ''type_from_dict'')
                               | Some t \<Rightarrow> Inr t),
      init_from_json = (\<lambda>d a. case map_of d (PStr ''_type'') of
                                 Some (PStr w) \<Rightarrow>
                                   if w \<in> set a then Inr (Some w)
                                   else Inl (CollaboratorError ''unresolved reference'')
                               | _ \<Rightarrow> Inr None),
      media_init = ()\<rparr>"

text \<open>The value a JSON object has under a string key.\<close>

definition json_get :: "('w py \<times> 'w py) list \<Rightarrow> string \<Rightarrow> 'w py option" where
  "json_get j k = map_of j (PStr k)"

text \<open>
  Modelled from the spec: an instance of the collaborators of \<open>bind_to_run\<close>; binding
  registers the key with the run.
\<close>

definition spec_staging :: "(string, unit, string list, string) staging" where
  "spec_staging =
     \<lparr>media_tmp = ''/tmp/wandb-media'',
      generate_id = (\<lambda>n. replicate (Suc n) (CHR ''x'')),
      json_dump_safer = (\<lambda>v. None),
      set_file = (\<lambda>fs m path is_tmp ext. (Inr (), m)),
      is_bound = (\<lambda>m. False),
      media_bind_to_run = (\<lambda>args m r. (Inr (), m, r @ [args]))\<rparr>"

text \<open>
  Concrete tables: one whose column name contains a period and whose cell is a rich value,
  one with 200001 rows, and a world in which nothing was staged.
\<close>

definition t_dot :: "(string, unit) table" where
  "t_dot = \<lparr>columns = [PStr ''a.b''], data = [[PWB ''image'']],
            column_types = DictType [(PStr ''a.b'', CustomType ''image'' [])], media = ()\<rparr>"

definition t_big :: "(string, unit) table" where
  "t_big = \<lparr>columns = [PStr ''a''], data = replicate 200001 [PNum 1],
            column_types = DictType [(PStr ''a'', PrimitiveType KNumber)], media = ()\<rparr>"

definition world0 :: "(string, string list) world" where
  "world0 = \<lparr>ids_drawn = 0, written = [], run_state = []\<rparr>"

text \<open>
  What is in the file after \<open>stage_payload\<close> has dumped a payload into it: the payload after
  \<open>numpy_arrays_to_lists\<close>, or \<open>None\<close> when the dump raised.
\<close>

definition dumped :: "('w, 'm, 'r, 'b) staging \<Rightarrow> 'w py \<Rightarrow> 'w py option" where
  "dumped sg payload =
     (case json_dump_safer sg (numpy_arrays_to_lists payload) of
        None \<Rightarrow> Some (numpy_arrays_to_lists payload)
      | Some e \<Rightarrow> None)"

text \<open>The dict \<open>_to_table_json\<close> returns for the first \<open>n\<close> rows of a table.\<close>

definition table_payload :: "('w, 'm) table \<Rightarrow> nat \<Rightarrow> 'w py" where
  "table_payload t n =
     PDict [(PStr ''columns'', PList (columns t)),
            (PStr ''data'', PList (map PList (take n (data t))))]"

text \<open>
  The round trip of the specification: \<open>from_json\<close> applied to what \<open>to_json\<close> returns toward
  an artifact, with that artifact, as \<open>to_json\<close> left it, as the source; the table read back
  is then compared (\<open>__eq__\<close>) with the table cut to its first \<open>MAX_ARTIFACT_ROWS\<close> rows.
\<close>

definition roundtrip ::
  "'w dtypes \<Rightarrow> ('w, 'm, 'r, 'a) codec \<Rightarrow> 'w comparisons \<Rightarrow> ('w, 'm) table \<Rightarrow> 'a \<Rightarrow>
     'w error + bool" where
  "roundtrip dt cd cmp t a =
     (case to_json cd t (Artifact a) of
        (log, Inl e, d) \<Rightarrow> Inl e
      | (log, Inr j, d) \<Rightarrow>
          (case d of
             Artifact a' \<Rightarrow>
               (case from_json dt cd j a' of
                  Inl e \<Rightarrow> Inl e
                | Inr t' \<Rightarrow> table_eq cmp t' (t\<lparr>data := take MAX_ARTIFACT_ROWS (data t)\<rparr>))
           | _ \<Rightarrow> Inl ValueError_destination))"

text \<open>Two cells, or two rows of cells, that \<open>!=\<close> does not tell apart.\<close>

definition same_cell :: "'w comparisons \<Rightarrow> 'w py \<Rightarrow> 'w py \<Rightarrow> bool" where
  "same_cell cmp x y = (\<not> cell_ne cmp x y)"

definition same_rows :: "'w comparisons \<Rightarrow> 'w py list list \<Rightarrow> 'w py list list \<Rightarrow> bool" where
  "same_rows cmp rs rs' = list_all2 (list_all2 (same_cell cmp)) rs rs'"

text \<open>A table with a number and a rich value in its only row.\<close>

definition t_rt :: "(string, unit) table" where
  "t_rt = \<lparr>columns = [PStr ''a'', PStr ''b''], data = [[PNum 1, PWB ''image'']],
           column_types = DictType [(PStr ''a'', OptionalType (PrimitiveType KNumber)),
                                    (PStr ''b'', OptionalType (CustomType ''image'' []))],
           media = ()\<rparr>"

text \<open>The rows of the part stored under a path, and the rows of a list of parts in order.\<close>

definition part_rows :: "(string \<Rightarrow> ('w, 'm) table option) \<Rightarrow> string \<Rightarrow> 'w py list list" where
  "part_rows src p = (case src p of None \<Rightarrow> [] | Some t \<Rightarrow> data t)"

definition parts_rows :: "(string \<Rightarrow> ('w, 'm) table option) \<Rightarrow> string list \<Rightarrow> 'w py list list" where
  "parts_rows src ps = concat (map (part_rows src) ps)"

text \<open>No entry has its part in memory: the state \<open>_add_part_entry\<close> creates.\<close>

definition all_free :: "('w, 'm) parts \<Rightarrow> bool" where
  "all_free pt = list_all (\<lambda>e. snd e = None) pt"

text \<open>Numbering rows from an index on.\<close>

definition numbered :: "nat \<Rightarrow> 'x list \<Rightarrow> (nat \<times> 'x) list" where
  "numbered n xs = zip [n ..< n + length xs] xs"

text \<open>
  Concrete parts: two tables over the columns "a" and "b", one over other columns, a source
  that stores them, and partitioned tables over them as \<open>_add_part_entry\<close> builds them.
\<close>

definition t_ab2 :: "(string, unit) table" where
  "t_ab2 = \<lparr>columns = [PStr ''a'', PStr ''b''],
            data = [[PNum 2, PStr ''y''], [PNum 3, PStr ''z'']],
            column_types = DictType [(PStr ''a'', PrimitiveType KNumber),
                                     (PStr ''b'', PrimitiveType KString)],
            media = ()\<rparr>"

definition t_az :: "(string, unit) table" where
  "t_az = \<lparr>columns = [PStr ''a'', PStr ''z''], data = [[PNum 4, PStr ''w'']],
           column_types = DictType [(PStr ''a'', PrimitiveType KNumber),
                                    (PStr ''z'', PrimitiveType KString)],
           media = ()\<rparr>"

definition src0 :: "string \<Rightarrow> (string, unit) table option" where
  "src0 p =
     (if p = ''parts/1'' then Some t_ab1
      else if p = ''parts/2'' then Some t_ab2
      else if p = ''parts/3'' then Some t_az
      else None)"


definition pt_bad :: "(string, unit) parts" where
  "pt_bad = add_part_entry (add_part_entry (add_part_entry [] ''parts/1'') ''parts/3'') ''parts/2''"

text \<open>
  Binding a value a second time, with the same arguments, in the world the first call left.
\<close>

definition bind_twice ::
  "('w, 'm, 'r, 'b) staging \<Rightarrow> ('w, 'm) table \<Rightarrow> 'b \<Rightarrow> ('w, 'r) world \<Rightarrow>
     log_msg list \<times> ('w error + unit) \<times> ('w, 'm) table \<times> ('w, 'r) world" where
  "bind_twice sg t args w =
     (case bind_to_run sg t args w of
        (log1, r1, t1, w1) \<Rightarrow> bind_to_run sg t1 args w1)"

definition graph_bind_twice ::
  "('w, 'm, 'r, 'b) staging \<Rightarrow> ('w, 'm) graph \<Rightarrow> 'b \<Rightarrow> ('w, 'r) world \<Rightarrow>
     ('w error + unit) \<times> ('w, 'm) graph \<times> ('w, 'r) world" where
  "graph_bind_twice sg g args w =
     (case graph_bind_to_run sg g args w of
        (r1, g1, w1) \<Rightarrow> graph_bind_to_run sg g1 args w1)"




text \<open>
  A table with 200001 rows whose column holds a number in the first row and strings in the
  others, under a union type: what \<open>Table(columns=["a"], data=..., dtype=Union(),
  optional=False)\<close> builds on the instance.
\<close>

definition t_mixed :: "(string, unit) table" where
  "t_mixed = \<lparr>columns = [PStr ''a''],
              data = [PNum 1] # [PStr ''x''] # replicate 199999 [PStr ''x''],
              column_types = DictType [(PStr ''a'',
                UnionType [PrimitiveType KNumber, PrimitiveType KString])],
              media = ()\<rparr>"

section \<open>Properties of add_data\<close>

lemma incoming_data_dict_fold:
  "length cols \<le> length cells \<Longrightarrow>
   incoming_data_dict cols cells acc =
     Inr (fold (\<lambda>(k, c) acc. AList.update k c acc) (zip cols cells) acc)"
proof (induction cols arbitrary: cells acc)
  case Nil
  then show ?case by simp
next
  case (Cons col cols)
  then obtain c cs where "cells = c # cs" by (cases cells) auto
  with Cons show ?case by simp
qed

lemma incoming_data_dict_row_dict:
  "length cells = length cols \<Longrightarrow> incoming_data_dict cols cells [] = Inr (row_dict cols cells)"
  by (simp add: incoming_data_dict_fold row_dict_def)

lemma fold_update_distinct:
  "distinct (map fst (acc @ kvs)) \<Longrightarrow>
   fold (\<lambda>(k, c) acc. AList.update k c acc) kvs acc = acc @ kvs"
proof (induction kvs arbitrary: acc)
  case Nil
  then show ?case by simp
next
  case (Cons kv kvs)
  obtain k c where kv: "kv = (k, c)" by (cases kv)
  from Cons.prems kv have "k \<notin> fst ` set acc" by auto
  then have "AList.update k c acc = acc @ [(k, c)]"
    by (induction acc) auto
  with Cons.IH [of "acc @ [(k, c)]"] Cons.prems kv show ?case by simp
qed

text \<open>With unique column names the mapping pairs each column with its cell, in order.\<close>

lemma row_dict_distinct:
  "distinct cols \<Longrightarrow> length cells = length cols \<Longrightarrow> row_dict cols cells = zip cols cells"
  using fold_update_distinct [of "[]" "zip cols cells"] by (simp add: row_dict_def)

text \<open>
  Claim C1. \<open>add_data\<close> has three outcomes. If the number of cells differs from the number
  of columns it raises the shape error and the table is unchanged. If the lengths match and
  narrowing the column record type against the mapping of column name to cell yields
  \<open>InvalidType\<close>, it raises the type error that carries the \<open>explain\<close> diagnostic and the table
  is unchanged. Otherwise it appends the row and commits the narrowed record type.
\<close>

theorem add_data_outcomes:
  "(length cells \<noteq> length (columns t) \<longrightarrow>
      add_data dt t cells = (Inl (ValueError_columns (length (columns t)) (columns t)), t))
   \<and> (length cells = length (columns t)
        \<and> assign dt (column_types t) (PDict (row_dict (columns t) cells)) = InvalidType \<longrightarrow>
      add_data dt t cells =
        (Inl (TypeError_row (explain dt (column_types t) (PDict (row_dict (columns t) cells)))), t))
   \<and> (length cells = length (columns t)
        \<and> assign dt (column_types t) (PDict (row_dict (columns t) cells)) \<noteq> InvalidType \<longrightarrow>
      add_data dt t cells =
        (Inr (), t\<lparr>column_types := assign dt (column_types t) (PDict (row_dict (columns t) cells)),
                   data := data t @ [cells]\<rparr>))"
  by (simp add: add_data_def validate_data_def incoming_data_dict_row_dict Let_def)

theorem add_data_outcomes_witness:
  "add_data spec_dtypes t_ab [PNum 1] =
     (Inl (ValueError_columns 2 [PStr ''a'', PStr ''b'']), t_ab)
   \<and> add_data spec_dtypes t_ab1 [PStr ''y'', PStr ''z''] =
       (Inl (TypeError_row ''cannot assign''), t_ab1)
   \<and> add_data spec_dtypes t_ab [PNum 1, PStr ''x''] = (Inr (), t_ab1)"
proof -
  have d: "row_dict [PStr ''a'', PStr ''b''] [x, y] = [(PStr ''a'', x), (PStr ''b'', y)]"
    for x y :: "string py"
    by (simp add: row_dict_def)
  have h1: "length [PNum 1 :: string py] \<noteq> length (columns t_ab)"
    by (simp add: t_ab_def)
  have h2: "length [PStr ''y'', PStr ''z'' :: string py] = length (columns t_ab1)
     \<and> assign spec_dtypes (column_types t_ab1)
         (PDict (row_dict (columns t_ab1) [PStr ''y'', PStr ''z''])) = InvalidType"
    by (simp add: t_ab1_def d spec_dtypes_def)
  have h3: "length [PNum 1, PStr ''x'' :: string py] = length (columns t_ab)
     \<and> assign spec_dtypes (column_types t_ab)
         (PDict (row_dict (columns t_ab) [PNum 1, PStr ''x''])) \<noteq> InvalidType"
    by (simp add: t_ab_def d spec_dtypes_def)
  have e2: "explain spec_dtypes (column_types t_ab1)
         (PDict (row_dict (columns t_ab1) [PStr ''y'', PStr ''z''])) = ''cannot assign''"
    by (simp add: spec_dtypes_def)
  have e3: "t_ab\<lparr>column_types := assign spec_dtypes (column_types t_ab)
         (PDict (row_dict (columns t_ab) [PNum 1, PStr ''x''])),
       data := data t_ab @ [[PNum 1, PStr ''x'']]\<rparr> = t_ab1"
    by (simp add: t_ab_def t_ab1_def d spec_dtypes_def)
  have c: "length (columns t_ab) = 2" "columns t_ab = [PStr ''a'', PStr ''b'']"
    by (simp_all add: t_ab_def)
  from add_data_outcomes [of "[PNum 1]" t_ab spec_dtypes] h1 c
  have r1: "add_data spec_dtypes t_ab [PNum 1] =
     (Inl (ValueError_columns 2 [PStr ''a'', PStr ''b'']), t_ab)"
    by metis
  from add_data_outcomes [of "[PStr ''y'', PStr ''z'']" t_ab1 spec_dtypes] h2 e2
  have r2: "add_data spec_dtypes t_ab1 [PStr ''y'', PStr ''z''] =
       (Inl (TypeError_row ''cannot assign''), t_ab1)"
    by metis
  from add_data_outcomes [of "[PNum 1, PStr ''x'']" t_ab spec_dtypes] h3 e3
  have r3: "add_data spec_dtypes t_ab [PNum 1, PStr ''x''] = (Inr (), t_ab1)"
    by metis
  from r1 r2 r3 show ?thesis by blast
qed

section \<open>Properties of cast\<close>

lemma index_of_less: "index_of x xs = Some i \<Longrightarrow> i < length xs"
  by (induction xs arbitrary: i) (auto split: if_splits)

lemma index_of_nth: "index_of x xs = Some i \<Longrightarrow> xs ! i = x"
  by (induction xs arbitrary: i) (auto split: if_splits)

lemma cast_rows_invalid:
  "\<forall>row \<in> set rows. c < length row \<Longrightarrow>
   \<exists>k < length rows. foldl (assign dt) w (column_values c (take (Suc k) rows)) = InvalidType \<Longrightarrow>
   \<exists>v w'. v \<in> set (column_values c rows)
     \<and> cast_rows dt w c rows = Inl (TypeError_cast v (type_of dt v) w')"
proof (induction rows arbitrary: w)
  case Nil
  then show ?case by simp
next
  case (Cons row rows)
  show ?case
  proof (cases "assign dt w (row ! c) = InvalidType")
    case True
    with Cons.prems(1) show ?thesis by (auto simp: column_values_def)
  next
    case False
    from Cons.prems(2) obtain k where k: "k < length (row # rows)"
      "foldl (assign dt) w (column_values c (take (Suc k) (row # rows))) = InvalidType"
      by blast
    have "k \<noteq> 0"
    proof
      assume "k = 0"
      with k(2) have "assign dt w (row ! c) = InvalidType"
        by (simp add: column_values_def)
      with False show False by simp
    qed
    then obtain k' where k': "k = Suc k'" by (cases k) auto
    with k have "k' < length rows"
      "foldl (assign dt) (assign dt w (row ! c)) (column_values c (take (Suc k') rows)) = InvalidType"
      by (auto simp: column_values_def)
    with Cons.IH [of "assign dt w (row ! c)"] Cons.prems(1)
    obtain v w' where "v \<in> set (column_values c rows)"
      "cast_rows dt (assign dt w (row ! c)) c rows = Inl (TypeError_cast v (type_of dt v) w')"
      by auto
    with False Cons.prems(1) show ?thesis by (auto simp: column_values_def Let_def)
  qed
qed

lemma cast_data: "data (snd (cast dt t col_name dtype optional)) = data t"
  by (auto simp: cast_def Let_def split: sum.splits option.splits)

text \<open>
  Claim C6. On a table with rows, a cast of a column to a descriptor that is incompatible
  with the existing values of that column (re-narrowing them against the fresh descriptor,
  in row order, reaches \<open>InvalidType\<close>) raises the type error, which names an existing value
  of the column, and leaves the table as it was: the column-type record is not updated.
  Whatever its outcome, cast keeps every row.
\<close>

theorem cast_incompatible:
  "(type_from_dtype dt dtype = Inr w0
      \<and> index_of col_name (columns t) = Some c
      \<and> (\<forall>row \<in> set (data t). c < length row)
      \<and> (\<exists>k < length (data t).
            foldl (assign dt) (if optional then OptionalType w0 else w0)
              (column_values c (take (Suc k) (data t))) = InvalidType)
    \<longrightarrow> (\<exists>v w'. v \<in> set (column_values c (data t))
           \<and> cast dt t col_name dtype optional = (Inl (TypeError_cast v (type_of dt v) w'), t)))
   \<and> data (snd (cast dt t col_name dtype optional)) = data t"
proof (intro conjI impI)
  assume h: "type_from_dtype dt dtype = Inr w0
      \<and> index_of col_name (columns t) = Some c
      \<and> (\<forall>row \<in> set (data t). c < length row)
      \<and> (\<exists>k < length (data t).
            foldl (assign dt) (if optional then OptionalType w0 else w0)
              (column_values c (take (Suc k) (data t))) = InvalidType)"
  then obtain v w' where "v \<in> set (column_values c (data t))"
    "cast_rows dt (if optional then OptionalType w0 else w0) c (data t)
       = Inl (TypeError_cast v (type_of dt v) w')"
    using cast_rows_invalid [of "data t" c dt "if optional then OptionalType w0 else w0"]
    by blast
  with h show "\<exists>v w'. v \<in> set (column_values c (data t))
           \<and> cast dt t col_name dtype optional = (Inl (TypeError_cast v (type_of dt v) w'), t)"
    by (auto simp: cast_def Let_def)
next
  show "data (snd (cast dt t col_name dtype optional)) = data t"
    by (rule cast_data)
qed

theorem cast_incompatible_witness:
  "\<exists>w'. cast spec_dtypes t_ab1 (PStr ''a'') (TypeInstance (PrimitiveType KString)) False =
     (Inl (TypeError_cast (PNum 1) (PrimitiveType KNumber) w'), t_ab1)"
proof -
  have h: "type_from_dtype spec_dtypes (TypeInstance (PrimitiveType KString))
        = Inr (PrimitiveType KString)
      \<and> index_of (PStr ''a'') (columns t_ab1) = Some 0
      \<and> (\<forall>row \<in> set (data t_ab1). 0 < length row)
      \<and> (\<exists>k < length (data t_ab1).
            foldl (assign spec_dtypes)
              (if False then OptionalType (PrimitiveType KString) else PrimitiveType KString)
              (column_values 0 (take (Suc k) (data t_ab1))) = InvalidType)"
    by (simp add: spec_dtypes_def t_ab1_def column_values_def)
  have cv: "column_values 0 (data t_ab1) = [PNum 1]"
    by (simp add: t_ab1_def column_values_def)
  have ty: "type_of spec_dtypes (PNum 1) = PrimitiveType KNumber"
    by (simp add: spec_dtypes_def)
  from cast_incompatible [of spec_dtypes "TypeInstance (PrimitiveType KString)"
      "PrimitiveType KString" "PStr ''a''" t_ab1 0 False] h
  obtain v w' where v: "v \<in> set (column_values 0 (data t_ab1))"
    and c: "cast spec_dtypes t_ab1 (PStr ''a'') (TypeInstance (PrimitiveType KString)) False
         = (Inl (TypeError_cast v (type_of spec_dtypes v) w'), t_ab1)"
    by blast
  from v cv have "v = PNum 1" by simp
  with c ty show ?thesis by metis
qed

section \<open>Properties of equality\<close>

lemma cells_eq_same_length:
  "length xs = length ys \<Longrightarrow>
   cells_eq cmp xs ys = Inr (\<forall>c < length xs. \<not> cell_ne cmp (xs ! c) (ys ! c))"
proof (induction xs ys rule: list_induct2)
  case Nil
  then show ?case by simp
next
  case (Cons x xs y ys)
  then show ?case by (auto simp: less_Suc_eq_0_disj)
qed

lemma rows_eq_same_shape:
  "length rs = length rs' \<Longrightarrow>
   \<forall>r < length rs. length (rs ! r) = length (rs' ! r) \<Longrightarrow>
   rows_eq cmp rs rs' =
     Inr (\<forall>r < length rs. \<forall>c < length (rs ! r). \<not> cell_ne cmp (rs ! r ! c) (rs' ! r ! c))"
proof (induction rs rs' rule: list_induct2)
  case Nil
  then show ?case by simp
next
  case (Cons r rs r' rs')
  from Cons.prems have len: "length r = length r'" by auto
  from Cons.prems have "\<forall>i < length rs. length (rs ! i) = length (rs' ! i)" by auto
  with Cons.IH have IH: "rows_eq cmp rs rs' =
     Inr (\<forall>r < length rs. \<forall>c < length (rs ! r). \<not> cell_ne cmp (rs ! r ! c) (rs' ! r ! c))"
    by simp
  show ?case
    by (simp add: cells_eq_same_length [OF len] IH less_Suc_eq_0_disj) auto
qed

text \<open>
  Claim C7. Two tables (that satisfy the row-length invariant) are equal if and only if they
  have the same sequence of columns, their column type records are equal, they have the same
  number of rows, and every cell of the first equals the corresponding cell of the second
  under the equality of the cells; the comparison does not raise.
\<close>

theorem table_eq_iff:
  "wf_table t1 \<Longrightarrow> wf_table t2 \<Longrightarrow>
   table_eq cmp t1 t2 =
     Inr (columns t1 = columns t2
          \<and> \<not> type_ne cmp (column_types t1) (column_types t2)
          \<and> length (data t1) = length (data t2)
          \<and> (\<forall>r < length (data t1). \<forall>c < length (columns t1).
                \<not> cell_ne cmp (data t1 ! r ! c) (data t2 ! r ! c)))"
proof (cases "length (data t1) = length (data t2) \<and> columns t1 = columns t2")
  case False
  then show ?thesis by (auto simp: table_eq_def)
next
  case True
  assume wf: "wf_table t1" "wf_table t2"
  from wf True have shape: "\<forall>r < length (data t1). length (data t1 ! r) = length (data t2 ! r)"
    by (auto simp: wf_table_def list_all_length)
  from wf have l1: "\<forall>r < length (data t1). length (data t1 ! r) = length (columns t1)"
    by (auto simp: wf_table_def list_all_length)
  from True shape have "rows_eq cmp (data t1) (data t2) =
     Inr (\<forall>r < length (data t1). \<forall>c < length (data t1 ! r).
            \<not> cell_ne cmp (data t1 ! r ! c) (data t2 ! r ! c))"
    by (intro rows_eq_same_shape) auto
  with True l1 show ?thesis by (auto simp: table_eq_def)
qed

theorem table_eq_iff_witness:
  "table_eq spec_comparisons t_ab1 t_ab1 = Inr True \<and> table_eq spec_comparisons t_ab1 t_ab = Inr False"
proof -
  have w: "wf_table t_ab1" "wf_table t_ab" by (simp_all add: wf_table_def t_ab1_def t_ab_def)
  show ?thesis
    using table_eq_iff [OF w(1) w(1), of spec_comparisons] table_eq_iff [OF w(1) w(2), of spec_comparisons]
    by (simp add: spec_comparisons_def t_ab_def t_ab1_def)
qed

text \<open>\<open>add_data\<close> keeps the invariant.\<close>

lemma add_data_wf: "wf_table t \<Longrightarrow> wf_table (snd (add_data dt t cells))"
  by (auto simp: add_data_def validate_data_def wf_table_def Let_def split: sum.splits prod.splits)

section \<open>Properties of to_json\<close>

lemma json_get_update:
  "json_get (AList.update (PStr k') v d) k = (if k = k' then Some v else json_get d k)"
  by (simp add: json_get_def update_conv')

lemma map_of_update_other:
  "k \<noteq> k' \<Longrightarrow> map_of (AList.update k' v d) k = map_of d k"
  by (simp add: update_conv')

lemma check_columns_None_iff:
  "check_columns cols = None \<longleftrightarrow> \<not> (\<exists>s. PStr s \<in> set cols \<and> CHR ''.'' \<in> set s)"
  by (induction cols rule: check_columns.induct) auto


text \<open>
  Claim C8, amended. When the base class has returned its fields: toward a run, \<open>to_json\<close>
  returns them with \<open>_type\<close> "table-file" and the integers \<open>ncols\<close> and \<open>nrows\<close>; toward an
  artifact, for a table none of whose string column names contains a period (and whose
  cells and column types the collaborators serialise), it returns \<open>_type\<close> "table" with
  \<open>columns\<close>, \<open>data\<close>, \<open>ncols\<close>, \<open>nrows\<close> and \<open>column_types\<close>, the JSON of the type
  descriptor; toward a destination of neither kind it raises the destination error.
\<close>

theorem to_json_shapes:
  "(media_to_json_run cd (media t) r = (Inr base, r') \<longrightarrow>
      (\<exists>j. to_json cd t (Run r) = ([], Inr j, Run r')
         \<and> json_get j ''_type'' = Some (PStr ''table-file'')
         \<and> json_get j ''ncols'' = Some (PNum (int (length (columns t))))
         \<and> json_get j ''nrows'' = Some (PNum (int (length (data t))))
         \<and> (\<forall>k. k \<notin> {PStr ''_type'', PStr ''ncols'', PStr ''nrows''} \<longrightarrow>
                map_of j k = map_of base k)))
   \<and> (media_to_json_artifact cd (media t) a = (Inr base, a1)
        \<and> \<not> (\<exists>s. PStr s \<in> set (columns t) \<and> CHR ''.'' \<in> set s)
        \<and> map_rows cd (take MAX_ARTIFACT_ROWS (data t)) a1 = (Inr mapped_data, a2)
        \<and> type_to_json cd (column_types t) a2 = (Inr ctj, a3) \<longrightarrow>
      (\<exists>log j. to_json cd t (Artifact a) = (log, Inr j, Artifact a3)
         \<and> json_get j ''_type'' = Some (PStr ''table'')
         \<and> json_get j ''columns'' = Some (PList (columns t))
         \<and> json_get j ''data'' = Some (PList (map PList mapped_data))
         \<and> json_get j ''ncols'' = Some (PNum (int (length (columns t))))
         \<and> json_get j ''nrows'' = Some (PNum (int (length mapped_data)))
         \<and> json_get j ''column_types'' = Some ctj))
   \<and> (media_to_json_other cd (media t) = Inr base \<longrightarrow>
      to_json cd t OtherDest = ([], Inl ValueError_destination, OtherDest))"
proof (intro conjI impI)
  assume "media_to_json_run cd (media t) r = (Inr base, r')"
  then show "\<exists>j. to_json cd t (Run r) = ([], Inr j, Run r')
         \<and> json_get j ''_type'' = Some (PStr ''table-file'')
         \<and> json_get j ''ncols'' = Some (PNum (int (length (columns t))))
         \<and> json_get j ''nrows'' = Some (PNum (int (length (data t))))
         \<and> (\<forall>k. k \<notin> {PStr ''_type'', PStr ''ncols'', PStr ''nrows''} \<longrightarrow>
                map_of j k = map_of base k)"
    by (simp add: dict_update_def json_get_update map_of_update_other)
next
  assume "media_to_json_artifact cd (media t) a = (Inr base, a1)
        \<and> \<not> (\<exists>s. PStr s \<in> set (columns t) \<and> CHR ''.'' \<in> set s)
        \<and> map_rows cd (take MAX_ARTIFACT_ROWS (data t)) a1 = (Inr mapped_data, a2)
        \<and> type_to_json cd (column_types t) a2 = (Inr ctj, a3)"
  then have "media_to_json_artifact cd (media t) a = (Inr base, a1)
        \<and> check_columns (columns t) = None
        \<and> map_rows cd (take MAX_ARTIFACT_ROWS (data t)) a1 = (Inr mapped_data, a2)
        \<and> type_to_json cd (column_types t) a2 = (Inr ctj, a3)"
    by (simp add: check_columns_None_iff)
  then show "\<exists>log j. to_json cd t (Artifact a) = (log, Inr j, Artifact a3)
         \<and> json_get j ''_type'' = Some (PStr ''table'')
         \<and> json_get j ''columns'' = Some (PList (columns t))
         \<and> json_get j ''data'' = Some (PList (map PList mapped_data))
         \<and> json_get j ''ncols'' = Some (PNum (int (length (columns t))))
         \<and> json_get j ''nrows'' = Some (PNum (int (length mapped_data)))
         \<and> json_get j ''column_types'' = Some ctj"
    by (simp add: dict_update_def json_get_update to_table_json_def Let_def)
next
  assume "media_to_json_other cd (media t) = Inr base"
  then show "to_json cd t OtherDest = ([], Inl ValueError_destination, OtherDest)"
    by simp
qed

theorem to_json_shapes_witness:
  "(\<exists>j. to_json spec_codec t_ab1 (Run []) = ([], Inr j, Run [])
       \<and> json_get j ''_type'' = Some (PStr ''table-file'')
       \<and> json_get j ''ncols'' = Some (PNum 2)
       \<and> json_get j ''nrows'' = Some (PNum 1)
       \<and> json_get j ''path'' = Some (PStr ''media/table/t.table.json''))
   \<and> (\<exists>log j. to_json spec_codec t_ab1 (Artifact []) = (log, Inr j, Artifact [])
       \<and> json_get j ''_type'' = Some (PStr ''table'')
       \<and> json_get j ''columns'' = Some (PList [PStr ''a'', PStr ''b''])
       \<and> json_get j ''data'' = Some (PList [PList [PNum 1, PStr ''x'']])
       \<and> json_get j ''ncols'' = Some (PNum 2)
       \<and> json_get j ''nrows'' = Some (PNum 1)
       \<and> json_get j ''column_types'' =
           Some (enc (DictType [(PStr ''a'', PrimitiveType KNumber),
                                (PStr ''b'', PrimitiveType KString)])))
   \<and> to_json spec_codec t_ab1 OtherDest = ([], Inl ValueError_destination, OtherDest)"
proof -
  let ?base = "[(PStr ''_type'', PStr ''file''), (PStr ''path'', PStr ''media/table/t.table.json'')]"
  have h1: "media_to_json_run spec_codec (media t_ab1) [] = (Inr ?base, [])"
    by (simp add: spec_codec_def)
  have "check_columns (columns t_ab1) = None"
    by (simp add: t_ab1_def)
  then have np: "\<not> (\<exists>s. PStr s \<in> set (columns t_ab1) \<and> CHR ''.'' \<in> set s)"
    using check_columns_None_iff [of "columns t_ab1"] by blast
  have h2a: "media_to_json_artifact spec_codec (media t_ab1) [] = (Inr [], [])
        \<and> map_rows spec_codec (take MAX_ARTIFACT_ROWS (data t_ab1)) []
            = (Inr [[PNum 1, PStr ''x'']], [])
        \<and> type_to_json spec_codec (column_types t_ab1) []
            = (Inr (enc (column_types t_ab1)), [])"
    by (simp add: spec_codec_def t_ab1_def map_rows_def MAX_ARTIFACT_ROWS_def)
  from np h2a
  have h2: "media_to_json_artifact spec_codec (media t_ab1) [] = (Inr [], [])
        \<and> \<not> (\<exists>s. PStr s \<in> set (columns t_ab1) \<and> CHR ''.'' \<in> set s)
        \<and> map_rows spec_codec (take MAX_ARTIFACT_ROWS (data t_ab1)) []
            = (Inr [[PNum 1, PStr ''x'']], [])
        \<and> type_to_json spec_codec (column_types t_ab1) []
            = (Inr (enc (column_types t_ab1)), [])"
    by blast
  have h3: "media_to_json_other spec_codec (media t_ab1) = Inr []"
    by (simp add: spec_codec_def)
  note T1 = to_json_shapes [where cd = spec_codec and t = t_ab1 and r = "[]" and base = ?base
      and r' = "[]"]
  note T2 = to_json_shapes [where cd = spec_codec and t = t_ab1 and a = "[]" and base = "[]"
      and ?a1.0 = "[]" and ?a2.0 = "[]" and ?a3.0 = "[]"
      and mapped_data = "[[PNum 1, PStr ''x'']]" and ctj = "enc (column_types t_ab1)"]
  from T1 h1 obtain j where j: "to_json spec_codec t_ab1 (Run []) = ([], Inr j, Run [])"
    "json_get j ''_type'' = Some (PStr ''table-file'')"
    "json_get j ''ncols'' = Some (PNum (int (length (columns t_ab1))))"
    "json_get j ''nrows'' = Some (PNum (int (length (data t_ab1))))"
    "\<forall>k. k \<notin> {PStr ''_type'', PStr ''ncols'', PStr ''nrows''} \<longrightarrow> map_of j k = map_of ?base k"
    by blast
  from j(5) have "json_get j ''path'' = Some (PStr ''media/table/t.table.json'')"
    by (simp add: json_get_def)
  with j have r1: "\<exists>j. to_json spec_codec t_ab1 (Run []) = ([], Inr j, Run [])
       \<and> json_get j ''_type'' = Some (PStr ''table-file'')
       \<and> json_get j ''ncols'' = Some (PNum 2)
       \<and> json_get j ''nrows'' = Some (PNum 1)
       \<and> json_get j ''path'' = Some (PStr ''media/table/t.table.json'')"
    by (simp add: t_ab1_def)
  from T2 h2 obtain log j' where "to_json spec_codec t_ab1 (Artifact []) = (log, Inr j', Artifact [])"
    "json_get j' ''_type'' = Some (PStr ''table'')"
    "json_get j' ''columns'' = Some (PList (columns t_ab1))"
    "json_get j' ''data'' = Some (PList (map PList [[PNum 1, PStr ''x'']]))"
    "json_get j' ''ncols'' = Some (PNum (int (length (columns t_ab1))))"
    "json_get j' ''nrows'' = Some (PNum (int (length [[PNum 1, PStr ''x'' :: string py]])))"
    "json_get j' ''column_types'' = Some (enc (column_types t_ab1))"
    by blast
  then have r2: "\<exists>log j. to_json spec_codec t_ab1 (Artifact []) = (log, Inr j, Artifact [])
       \<and> json_get j ''_type'' = Some (PStr ''table'')
       \<and> json_get j ''columns'' = Some (PList [PStr ''a'', PStr ''b''])
       \<and> json_get j ''data'' = Some (PList [PList [PNum 1, PStr ''x'']])
       \<and> json_get j ''ncols'' = Some (PNum 2)
       \<and> json_get j ''nrows'' = Some (PNum 1)
       \<and> json_get j ''column_types'' =
           Some (enc (DictType [(PStr ''a'', PrimitiveType KNumber),
                                (PStr ''b'', PrimitiveType KString)]))"
    by (simp add: t_ab1_def)
  from T2 h3 have r3: "to_json spec_codec t_ab1 OtherDest = ([], Inl ValueError_destination, OtherDest)"
    by blast
  from r1 r2 r3 show ?thesis by blast
qed

text \<open>
  Claim C8 as stated fails on a table whose column name contains a period: toward an
  artifact \<open>to_json\<close> raises the error of the column-name check instead of returning the
  object.
\<close>

theorem to_json_shapes_counterexample:
  "to_json spec_codec t_dot (Artifact []) = ([], Inl (ValueError_period (PStr ''a.b'')), Artifact [])"
  by (simp add: spec_codec_def t_dot_def)



section \<open>Properties of truncation\<close>

lemma map_loop_length:
  "map_loop f xs a = (Inr ys, a') \<Longrightarrow> length ys = length xs"
proof (induction xs arbitrary: a ys)
  case Nil
  then show ?case by simp
next
  case (Cons x xs)
  then show ?case
    by (auto split: prod.splits sum.splits)
qed

lemma map_loop_pure:
  "\<forall>x \<in> set xs. \<forall>a. f x a = (Inr (g x), a) \<Longrightarrow> map_loop f xs a = (Inr (map g xs), a)"
  by (induction xs) auto

lemma stage_payload_written:
  "stage_payload sg payload ext m w = (r, m', w') \<Longrightarrow>
   \<exists>path. written w' = written w @ [(path, dumped sg payload)]"
  by (auto simp: stage_payload_def dumped_def Let_def split: option.splits prod.splits)

lemma bind_to_run_written:
  assumes "bind_to_run sg t args w = (log, r, t', w')"
  shows "log = (if MAX_ROWS < length (data t) then [Warning_truncating MAX_ROWS] else [])"
    and "\<exists>path. written w' = written w @ [(path, dumped sg (table_payload t MAX_ROWS))]"
proof -
  let ?tj = "[(PStr ''columns'', PList (columns t)),
              (PStr ''data'', PList (map PList (take MAX_ROWS (data t))))]"
  obtain r1 m1 w1 where sp: "stage_payload sg (PDict ?tj) ''.table.json'' (media t) w = (r1, m1, w1)"
    by (cases "stage_payload sg (PDict ?tj) ''.table.json'' (media t) w") auto
  from assms sp show "log = (if MAX_ROWS < length (data t) then [Warning_truncating MAX_ROWS] else [])"
    by (auto simp: bind_to_run_def to_table_json_def split: sum.splits prod.splits)
  from assms sp have "written w' = written w1"
    by (auto simp: bind_to_run_def to_table_json_def split: sum.splits prod.splits)
  with stage_payload_written [OF sp]
  show "\<exists>path. written w' = written w @ [(path, dumped sg (table_payload t MAX_ROWS))]"
    by (simp add: table_payload_def)
qed

lemma to_json_artifact_take:
  "snd (to_json cd (t\<lparr>data := take MAX_ARTIFACT_ROWS (data t)\<rparr>) (Artifact a)) =
   snd (to_json cd t (Artifact a))"
  by (auto simp: to_table_json_def Let_def split: prod.splits sum.splits option.splits)

lemma to_json_artifact_Inr:
  assumes "to_json cd t (Artifact a) = (log, Inr j, d)"
  shows "log = (if MAX_ARTIFACT_ROWS < length (data t)
                then [Warning_truncating MAX_ARTIFACT_ROWS] else [])"
    and "\<exists>md. fst (map_rows cd (take MAX_ARTIFACT_ROWS (data t))
                    (snd (media_to_json_artifact cd (media t) a))) = Inr md
          \<and> json_get j ''data'' = Some (PList (map PList md))
          \<and> json_get j ''nrows'' = Some (PNum (int (length md)))"
  using assms
  by (auto simp: to_table_json_def Let_def dict_update_def json_get_update
           split: prod.splits sum.splits option.splits)

text \<open>
  Claim C2. A table with more rows than the cap of the destination is cut to the first
  cap-many rows, with a warning and without an error of its own.
  Toward a run (cap \<open>MAX_ROWS\<close>) \<open>bind_to_run\<close> logs the warning and the file it stages holds
  the first \<open>MAX_ROWS\<close> rows. Toward an artifact (cap \<open>MAX_ARTIFACT_ROWS\<close>) the outcome of
  \<open>to_json\<close> and the artifact it leaves are those of the table cut to the cap, so the rows
  beyond the cap raise nothing and are not serialised; when it returns a JSON object, the
  warning was logged, \<open>data\<close> holds the serialised first \<open>MAX_ARTIFACT_ROWS\<close> rows and
  \<open>nrows\<close> is \<open>MAX_ARTIFACT_ROWS\<close>, which is 200000.
\<close>

theorem truncation_at_caps:
  "(MAX_ROWS < length (data t) \<longrightarrow>
      fst (bind_to_run sg t args w) = [Warning_truncating MAX_ROWS]
      \<and> (\<exists>path. written (snd (snd (snd (bind_to_run sg t args w))))
            = written w @ [(path, dumped sg (table_payload t MAX_ROWS))]))
   \<and> (MAX_ARTIFACT_ROWS < length (data t) \<longrightarrow>
      snd (to_json cd t (Artifact a))
        = snd (to_json cd (t\<lparr>data := take MAX_ARTIFACT_ROWS (data t)\<rparr>) (Artifact a))
      \<and> (\<forall>log j d. to_json cd t (Artifact a) = (log, Inr j, d) \<longrightarrow>
            log = [Warning_truncating MAX_ARTIFACT_ROWS]
            \<and> json_get j ''nrows'' = Some (PNum 200000)
            \<and> (\<exists>md. fst (map_rows cd (take MAX_ARTIFACT_ROWS (data t))
                        (snd (media_to_json_artifact cd (media t) a))) = Inr md
                  \<and> length md = MAX_ARTIFACT_ROWS
                  \<and> json_get j ''data'' = Some (PList (map PList md)))))"
proof (intro conjI impI allI)
  assume big: "MAX_ROWS < length (data t)"
  obtain log r t' w' where b: "bind_to_run sg t args w = (log, r, t', w')"
    by (cases "bind_to_run sg t args w") auto
  from bind_to_run_written(1) [OF b] big b
  show "fst (bind_to_run sg t args w) = [Warning_truncating MAX_ROWS]"
    by simp
  from bind_to_run_written(2) [OF b] b
  show "\<exists>path. written (snd (snd (snd (bind_to_run sg t args w))))
            = written w @ [(path, dumped sg (table_payload t MAX_ROWS))]"
    by simp
next
  show "snd (to_json cd t (Artifact a))
        = snd (to_json cd (t\<lparr>data := take MAX_ARTIFACT_ROWS (data t)\<rparr>) (Artifact a))"
    by (rule to_json_artifact_take [symmetric])
next
  fix log j d
  assume big: "MAX_ARTIFACT_ROWS < length (data t)"
    and tj: "to_json cd t (Artifact a) = (log, Inr j, d)"
  from to_json_artifact_Inr(1) [OF tj] big
  show "log = [Warning_truncating MAX_ARTIFACT_ROWS]" by simp
  from to_json_artifact_Inr(2) [OF tj] obtain md where
    md: "fst (map_rows cd (take MAX_ARTIFACT_ROWS (data t))
                    (snd (media_to_json_artifact cd (media t) a))) = Inr md"
      "json_get j ''data'' = Some (PList (map PList md))"
      "json_get j ''nrows'' = Some (PNum (int (length md)))"
    by blast
  from md(1) have "length md = length (take MAX_ARTIFACT_ROWS (data t))"
    using map_loop_length [of "map_loop (json_helper cd)" "take MAX_ARTIFACT_ROWS (data t)"
        "snd (media_to_json_artifact cd (media t) a)" md]
    by (cases "map_rows cd (take MAX_ARTIFACT_ROWS (data t))
                 (snd (media_to_json_artifact cd (media t) a))") (auto simp: map_rows_def)
  with big have len: "length md = MAX_ARTIFACT_ROWS" by simp
  with md(3) show "json_get j ''nrows'' = Some (PNum 200000)"
    by (simp add: MAX_ARTIFACT_ROWS_def)
  from md len show "\<exists>md. fst (map_rows cd (take MAX_ARTIFACT_ROWS (data t))
                        (snd (media_to_json_artifact cd (media t) a))) = Inr md
                  \<and> length md = MAX_ARTIFACT_ROWS
                  \<and> json_get j ''data'' = Some (PList (map PList md))"
    by blast
qed

theorem truncation_at_caps_witness:
  "fst (bind_to_run spec_staging t_big ''key'' world0) = [Warning_truncating 10000]
   \<and> (\<exists>path. written (snd (snd (snd (bind_to_run spec_staging t_big ''key'' world0))))
          = [(path, dumped spec_staging (table_payload t_big 10000))])
   \<and> (\<exists>j. to_json spec_codec t_big (Artifact []) = ([Warning_truncating 200000], Inr j, Artifact [])
          \<and> json_get j ''nrows'' = Some (PNum 200000))"
proof -
  have len: "length (data t_big) = 200001"
    by (simp add: t_big_def)
  have h1: "MAX_ROWS < length (data t_big)"
    by (simp add: len MAX_ROWS_def)
  have h2: "MAX_ARTIFACT_ROWS < length (data t_big)"
    by (simp add: len MAX_ARTIFACT_ROWS_def)
  note T = truncation_at_caps [of t_big spec_staging "''key''" world0 spec_codec "[]"]
  from T h1 have r1: "fst (bind_to_run spec_staging t_big ''key'' world0) = [Warning_truncating 10000]"
    by (simp add: MAX_ROWS_def)
  from T h1 have r2: "\<exists>path. written (snd (snd (snd (bind_to_run spec_staging t_big ''key'' world0))))
          = [(path, dumped spec_staging (table_payload t_big 10000))]"
    by (simp add: MAX_ROWS_def world0_def)
  have m: "media_to_json_artifact spec_codec u [] = (Inr [], [])" for u
    by (simp add: spec_codec_def)
  have cc: "check_columns (columns t_big) = None"
    by (simp add: t_big_def)
  have row: "\<forall>x \<in> set (take MAX_ARTIFACT_ROWS (data t_big)).
               \<forall>a. map_loop (json_helper spec_codec) x a = (Inr ((\<lambda>r. r) x), a)"
    by (auto simp: t_big_def spec_codec_def dest!: in_set_takeD)
  have mr: "map_rows spec_codec (take MAX_ARTIFACT_ROWS (data t_big)) []
              = (Inr (take MAX_ARTIFACT_ROWS (data t_big)), [])"
    unfolding map_rows_def using map_loop_pure [OF row, of "[]"] by simp
  have tt: "type_to_json spec_codec (column_types t_big) [] = (Inr (enc (column_types t_big)), [])"
    by (simp add: spec_codec_def)
  have "\<exists>log j. to_json spec_codec t_big (Artifact []) = (log, Inr j, Artifact [])"
    by (simp add: m cc mr tt to_table_json_def Let_def)
  then obtain log j where tj: "to_json spec_codec t_big (Artifact []) = (log, Inr j, Artifact [])"
    by blast
  from T h2 tj have "log = [Warning_truncating MAX_ARTIFACT_ROWS]"
    "json_get j ''nrows'' = Some (PNum 200000)"
    by blast+
  with tj have r3: "\<exists>j. to_json spec_codec t_big (Artifact [])
            = ([Warning_truncating 200000], Inr j, Artifact [])
          \<and> json_get j ''nrows'' = Some (PNum 200000)"
    by (simp add: MAX_ARTIFACT_ROWS_def)
  from r1 r2 r3 show ?thesis by blast
qed

section \<open>Properties of the round trip\<close>

lemma cast_columns_fields: "columns (snd (cast dt t col_name dtype optional)) = columns t"
  by (auto simp: cast_def Let_def split: sum.splits option.splits)

lemma cast_columns_keeps:
  "cast_columns dt t cs = (r, t') \<Longrightarrow> columns t' = columns t \<and> data t' = data t"
proof (induction cs arbitrary: t)
  case Nil
  then show ?case by simp
next
  case (Cons c cs)
  obtain col_name opt d where c: "c = (col_name, opt, d)" by (cases c)
  obtain r1 t1 where c1: "cast dt t col_name d opt = (r1, t1)"
    by (cases "cast dt t col_name d opt")
  from c1 have k: "columns t1 = columns t" "data t1 = data t"
    using cast_columns_fields [of dt t col_name d opt] cast_data [of dt t col_name d opt]
    by simp_all
  show ?case
  proof (cases r1)
    case (Inl e)
    with Cons.prems c c1 k show ?thesis by simp
  next
    case (Inr w)
    with Cons.prems c c1 have "cast_columns dt t1 cs = (r, t')" by simp
    from Cons.IH [OF this] k show ?thesis by simp
  qed
qed

lemma add_data_Inr:
  "add_data dt t cells = (Inr u, t') \<Longrightarrow> columns t' = columns t \<and> data t' = data t @ [cells]"
  by (auto simp: add_data_def validate_data_def Let_def split: if_splits sum.splits prod.splits)

lemma add_rows_Inr:
  "add_rows dt t rows = (Inr u, t') \<Longrightarrow> columns t' = columns t \<and> data t' = data t @ rows"
proof (induction rows arbitrary: t)
  case Nil
  then show ?case by simp
next
  case (Cons row rows)
  obtain r1 t1 where a: "add_data dt t row = (r1, t1)" by (cases "add_data dt t row")
  with Cons.prems obtain u1 where r1: "r1 = Inr u1" by (cases r1) auto
  with a Cons.prems have "add_rows dt t1 rows = (Inr u, t')" by simp
  from Cons.IH [OF this] add_data_Inr [of dt t row u1 t1] a r1 show ?case by simp
qed

lemma Table_init_Inr:
  assumes "Table_init dt m0 (Some cs) rows = Inr t0"
  shows "columns t0 = cs \<and> data t0 = rows"
proof -
  let ?t = "\<lparr>columns = cs, data = [], column_types = DictType [], media = m0\<rparr>"
  obtain r1 t1 where m: "make_column_types dt ?t None (One True) = (r1, t1)"
    by (cases "make_column_types dt ?t None (One True)")
  then have k1: "columns t1 = cs \<and> data t1 = []"
    using cast_columns_keeps [of dt _ _ r1 t1] by (auto simp: make_column_types_def Let_def)
  from assms m obtain u1 where r1: "r1 = Inr u1"
    by (cases r1) (auto simp: Table_init_def init_from_list_def Let_def split: if_splits)
  obtain r2 t2 where a: "add_rows dt t1 rows = (r2, t2)" by (cases "add_rows dt t1 rows")
  from assms m r1 a obtain u2 where r2: "r2 = Inr u2" and t0: "t0 = t2"
    by (cases r2) (auto simp: Table_init_def init_from_list_def Let_def split: if_splits)
  from add_rows_Inr [of dt t1 rows u2 t2] a r2 k1 t0 show ?thesis by simp
qed

lemma decode_row_map_loop:
  assumes "\<forall>cell \<in> set row. \<forall>a0 j0 a1. json_helper cd cell a0 = (Inr j0, a1) \<longrightarrow>
             (\<exists>cell'. decode_cell cd src j0 = Inr cell' \<and> same_cell cmp cell' cell)"
    and "map_loop (json_helper cd) row a = (Inr jrow, a')"
  shows "\<exists>row'. decode_row cd src jrow = Inr row' \<and> list_all2 (same_cell cmp) row' row"
  using assms
proof (induction row arbitrary: a jrow)
  case Nil
  then show ?case by simp
next
  case (Cons cell row)
  from Cons.prems(2) obtain j0 a1 jrest where
    j0: "json_helper cd cell a = (Inr j0, a1)"
    and rest: "map_loop (json_helper cd) row a1 = (Inr jrest, a')"
    and jrow: "jrow = j0 # jrest"
    by (auto split: prod.splits sum.splits)
  from Cons.prems(1) j0 obtain cell' where
    c: "decode_cell cd src j0 = Inr cell'" "same_cell cmp cell' cell"
    by (metis list.set_intros(1))
  from Cons.IH [OF _ rest] Cons.prems(1) obtain row' where
    r: "decode_row cd src jrest = Inr row'" "list_all2 (same_cell cmp) row' row"
    by auto
  from c r jrow show ?case by simp
qed

lemma decode_rows_map_loop:
  assumes "\<forall>row \<in> set rows. \<forall>cell \<in> set row. \<forall>a0 j0 a1.
             json_helper cd cell a0 = (Inr j0, a1) \<longrightarrow>
             (\<exists>cell'. decode_cell cd src j0 = Inr cell' \<and> same_cell cmp cell' cell)"
    and "map_loop (map_loop (json_helper cd)) rows a = (Inr md, a')"
  shows "\<exists>rows'. decode_rows cd src (map PList md) = Inr rows' \<and> same_rows cmp rows' rows"
  using assms
proof (induction rows arbitrary: a md)
  case Nil
  then show ?case by (simp add: same_rows_def)
next
  case (Cons row rows)
  from Cons.prems(2) obtain jrow a1 jrest where
    jr: "map_loop (json_helper cd) row a = (Inr jrow, a1)"
    and rest: "map_loop (map_loop (json_helper cd)) rows a1 = (Inr jrest, a')"
    and md: "md = jrow # jrest"
    by (auto split: prod.splits sum.splits)
  from Cons.prems(1) have "\<forall>cell \<in> set row. \<forall>a0 j0 a1.
             json_helper cd cell a0 = (Inr j0, a1) \<longrightarrow>
             (\<exists>cell'. decode_cell cd src j0 = Inr cell' \<and> same_cell cmp cell' cell)"
    by simp
  from decode_row_map_loop [OF this jr] obtain row' where
    r: "decode_row cd src jrow = Inr row'" "list_all2 (same_cell cmp) row' row"
    by blast
  from Cons.IH [OF _ rest] Cons.prems(1) obtain rows' where
    rs: "decode_rows cd src (map PList jrest) = Inr rows'" "same_rows cmp rows' rows"
    by auto
  from r rs md show ?case by (simp add: same_rows_def)
qed

lemma rows_eq_same_rows:
  "same_rows cmp rs rs' \<Longrightarrow> rows_eq cmp rs rs' = Inr True"
proof -
  assume s: "same_rows cmp rs rs'"
  then have len: "length rs = length rs'"
    by (simp add: same_rows_def list_all2_lengthD)
  from s have shape: "\<forall>r < length rs. length (rs ! r) = length (rs' ! r)"
    by (auto simp: same_rows_def list_all2_conv_all_nth)
  from s have "\<forall>r < length rs. \<forall>c < length (rs ! r). \<not> cell_ne cmp (rs ! r ! c) (rs' ! r ! c)"
    by (auto simp: same_rows_def same_cell_def list_all2_conv_all_nth)
  with rows_eq_same_shape [OF len shape, of cmp] show ?thesis by simp
qed

lemma to_json_artifact_parts:
  assumes "to_json cd t (Artifact a) = (log, Inr j, d)"
  shows "\<exists>a1 a2 a3 md ctj.
           map_rows cd (take MAX_ARTIFACT_ROWS (data t)) a1 = (Inr md, a2)
         \<and> type_to_json cd (column_types t) a2 = (Inr ctj, a3)
         \<and> d = Artifact a3
         \<and> json_get j ''columns'' = Some (PList (columns t))
         \<and> json_get j ''data'' = Some (PList (map PList md))
         \<and> json_get j ''column_types'' = Some ctj"
proof -
  obtain res a1 where m: "media_to_json_artifact cd (media t) a = (res, a1)"
    by (cases "media_to_json_artifact cd (media t) a")
  with assms obtain base where res: "res = Inr base"
    by (cases res) auto
  from assms m res have cc: "check_columns (columns t) = None"
    by (cases "check_columns (columns t)") auto
  obtain rr a2 where mr: "map_rows cd (take MAX_ARTIFACT_ROWS (data t)) a1 = (rr, a2)"
    by (cases "map_rows cd (take MAX_ARTIFACT_ROWS (data t)) a1")
  with assms m res cc obtain md where rr: "rr = Inr md"
    by (cases rr) (auto simp: to_table_json_def Let_def)
  obtain tr a3 where tt: "type_to_json cd (column_types t) a2 = (tr, a3)"
    by (cases "type_to_json cd (column_types t) a2")
  with assms m res cc mr rr obtain ctj where tr: "tr = Inr ctj"
    by (cases tr) (auto simp: to_table_json_def Let_def)
  from assms m res cc mr rr tt tr
  have "d = Artifact a3"
    "json_get j ''columns'' = Some (PList (columns t))"
    "json_get j ''data'' = Some (PList (map PList md))"
    "json_get j ''column_types'' = Some ctj"
    by (auto simp: to_table_json_def Let_def dict_update_def json_get_update)
  with mr rr tt tr show ?thesis by blast
qed

lemma from_json_parts:
  assumes cols: "json_get j ''columns'' = Some (PList cs)"
    and dat: "json_get j ''data'' = Some (PList jrows)"
    and ct: "json_get j ''column_types'' = Some ctj" "ctj \<noteq> PNone"
    and dec: "decode_rows cd src jrows = Inr rows"
    and ini: "Table_init dt (media_init cd) (Some cs) rows = Inr t0"
    and ty: "type_from_dict cd ctj src = Inr ct'"
  shows "from_json dt cd j src = Inr (t0\<lparr>column_types := ct'\<rparr>)"
  using assms by (cases ctj) (simp_all add: from_json_def json_get_def)

text \<open>
  Where a default table over the same columns accepts the rows, the round trip holds. Let
  \<open>to_json\<close> toward the artifact return a JSON object. Let the read side give back, for the
  JSON of every cell of the first \<open>MAX_ARTIFACT_ROWS\<close> rows, a cell equal to it, and for the
  JSON of the column type record an equal record; and let a default table over the same
  columns accept rows equal to those rows. Then \<open>from_json\<close>, applied to that object with
  the artifact as the source, returns a table equal to the table cut to its first
  \<open>MAX_ARTIFACT_ROWS\<close> rows.
\<close>

lemma roundtrip_accepted:
  assumes ser: "to_json cd t (Artifact a) = (log, Inr j, Artifact a')"
    and cells: "\<forall>row \<in> set (take MAX_ARTIFACT_ROWS (data t)). \<forall>cell \<in> set row. \<forall>a0 j0 a1.
             json_helper cd cell a0 = (Inr j0, a1) \<longrightarrow>
             (\<exists>cell'. decode_cell cd a' j0 = Inr cell' \<and> same_cell cmp cell' cell)"
    and types: "\<forall>a0 ctj a1. type_to_json cd (column_types t) a0 = (Inr ctj, a1) \<longrightarrow>
             ctj \<noteq> PNone
             \<and> (\<exists>ct'. type_from_dict cd ctj a' = Inr ct' \<and> \<not> type_ne cmp ct' (column_types t))"
    and init: "\<forall>rows'. same_rows cmp rows' (take MAX_ARTIFACT_ROWS (data t)) \<longrightarrow>
             (\<exists>t0. Table_init dt (media_init cd) (Some (columns t)) rows' = Inr t0)"
  shows "roundtrip dt cd cmp t a = Inr True"
proof -
  let ?rows = "take MAX_ARTIFACT_ROWS (data t)"
  from to_json_artifact_parts [OF ser] obtain a1 a2 a3 md ctj where
    mr: "map_rows cd ?rows a1 = (Inr md, a2)"
    and tt: "type_to_json cd (column_types t) a2 = (Inr ctj, a3)"
    and jc: "json_get j ''columns'' = Some (PList (columns t))"
    and jd: "json_get j ''data'' = Some (PList (map PList md))"
    and jt: "json_get j ''column_types'' = Some ctj"
    by blast
  from decode_rows_map_loop [OF cells mr [unfolded map_rows_def]] obtain rows' where
    dr: "decode_rows cd a' (map PList md) = Inr rows'" and sr: "same_rows cmp rows' ?rows"
    by blast
  from init sr obtain t0 where t0: "Table_init dt (media_init cd) (Some (columns t)) rows' = Inr t0"
    by blast
  from Table_init_Inr [OF t0] have k: "columns t0 = columns t" "data t0 = rows'"
    by simp_all
  from types tt obtain ct' where
    ct: "ctj \<noteq> PNone" "type_from_dict cd ctj a' = Inr ct'" "\<not> type_ne cmp ct' (column_types t)"
    by blast
  from from_json_parts [OF jc jd jt ct(1) dr t0 ct(2)]
  have fj: "from_json dt cd j a' = Inr (t0\<lparr>column_types := ct'\<rparr>)" .
  from sr have len: "length rows' = length ?rows"
    by (simp add: same_rows_def list_all2_lengthD)
  have "table_eq cmp (t0\<lparr>column_types := ct'\<rparr>) (t\<lparr>data := ?rows\<rparr>) = Inr True"
    using k ct(3) len rows_eq_same_rows [OF sr] by (simp add: table_eq_def)
  with ser fj show ?thesis by (simp add: roundtrip_def)
qed

lemma roundtrip_accepted_example:
  "roundtrip spec_dtypes spec_codec spec_comparisons t_rt [] = Inr True"
proof -
  let ?j = "dict_update ([] :: (string py \<times> string py) list)
     [(PStr ''_type'', PStr ''table''),
      (PStr ''columns'', PList (columns t_rt)),
      (PStr ''data'', PList (map PList [[PNum 1, PDict [(PStr ''_type'', PStr ''image'')]]])),
      (PStr ''ncols'', PNum (int (length (columns t_rt)))),
      (PStr ''nrows'', PNum 1),
      (PStr ''column_types'', enc (column_types t_rt))]"
  have rows: "take MAX_ARTIFACT_ROWS (data t_rt) = [[PNum 1, PWB ''image'']]"
    by (simp add: t_rt_def MAX_ARTIFACT_ROWS_def)
  have m: "media_to_json_artifact spec_codec u [] = (Inr [], [])" for u
    by (simp add: spec_codec_def)
  have cc: "check_columns (columns t_rt) = None"
    by (simp add: t_rt_def)
  have mr: "map_rows spec_codec [[PNum 1, PWB ''image'']] []
      = (Inr [[PNum 1, PDict [(PStr ''_type'', PStr ''image'')]]], [''image''])"
    by (simp add: map_rows_def spec_codec_def)
  have tt: "type_to_json spec_codec ct b = (Inr (enc ct), b)" for ct b
    by (simp add: spec_codec_def)
  have len: "\<not> MAX_ARTIFACT_ROWS < length (data t_rt)"
    by (simp add: t_rt_def MAX_ARTIFACT_ROWS_def)
  have ser: "to_json spec_codec t_rt (Artifact []) = ([], Inr ?j, Artifact [''image''])"
    by (simp add: m cc rows mr tt len to_table_json_def Let_def)
  have cells: "\<forall>row \<in> set (take MAX_ARTIFACT_ROWS (data t_rt)). \<forall>cell \<in> set row. \<forall>a0 j0 a1.
             json_helper spec_codec cell a0 = (Inr j0, a1) \<longrightarrow>
             (\<exists>cell'. decode_cell spec_codec [''image''] j0 = Inr cell'
                \<and> same_cell spec_comparisons cell' cell)"
    by (auto simp: rows spec_codec_def decode_cell_def same_cell_def spec_comparisons_def)
  have types: "\<forall>a0 ctj a1. type_to_json spec_codec (column_types t_rt) a0 = (Inr ctj, a1) \<longrightarrow>
             ctj \<noteq> PNone
             \<and> (\<exists>ct'. type_from_dict spec_codec ctj [''image''] = Inr ct'
                  \<and> \<not> type_ne spec_comparisons ct' (column_types t_rt))"
    by (auto simp: spec_codec_def t_rt_def spec_comparisons_def prim_of_def)
  have init: "\<forall>rows'. same_rows spec_comparisons rows' (take MAX_ARTIFACT_ROWS (data t_rt)) \<longrightarrow>
             (\<exists>t0. Table_init spec_dtypes (media_init spec_codec) (Some (columns t_rt)) rows' = Inr t0)"
  proof (intro allI impI)
    fix rows'
    assume "same_rows spec_comparisons rows' (take MAX_ARTIFACT_ROWS (data t_rt))"
    then have "list_all2 (list_all2 (=)) rows' [[PNum 1, PWB ''image'']]"
      by (simp add: rows same_rows_def same_cell_def [abs_def] spec_comparisons_def)
    then have r: "rows' = [[PNum 1, PWB ''image'']]"
      by (simp add: list.rel_eq)
    show "\<exists>t0. Table_init spec_dtypes (media_init spec_codec) (Some (columns t_rt)) rows' = Inr t0"
      by (simp add: r t_rt_def Table_init_def init_from_list_def make_column_types_def
            cast_def set_type_map_def add_data_def validate_data_def spec_dtypes_def Let_def)
  qed
  from roundtrip_accepted [OF ser cells types init] show ?thesis .
qed

lemma add_rows_union_strings:
  "columns t = [PStr ''a''] \<Longrightarrow>
   column_types t = DictType [(PStr ''a'', UnionType [PrimitiveType KNumber, PrimitiveType KString])] \<Longrightarrow>
   add_rows spec_dtypes t (replicate n [PStr ''x''])
     = (Inr (), t\<lparr>data := data t @ replicate n [PStr ''x'']\<rparr>)"
proof (induction n arbitrary: t)
  case 0
  then show ?case by simp
next
  case (Suc n)
  let ?t1 = "t\<lparr>data := data t @ [[PStr ''x'']]\<rparr>"
  from Suc.prems have a: "add_data spec_dtypes t [PStr ''x''] = (Inr (), ?t1)"
    by (simp add: add_data_def validate_data_def spec_dtypes_def Let_def)
  from Suc.prems have "columns ?t1 = [PStr ''a'']"
    "column_types ?t1 = DictType [(PStr ''a'', UnionType [PrimitiveType KNumber, PrimitiveType KString])]"
    by simp_all
  from Suc.IH [OF this] a show ?case
    by (simp add: replicate_app_Cons_same)
qed

text \<open>The constructor builds \<open>t_mixed\<close> from its rows when the column is given a union type.\<close>

lemma t_mixed_constructed:
  "init_from_list spec_dtypes () (data t_mixed) [PStr ''a''] (One False)
     (Some (One (TypeInstance (UnionType [])))) = Inr t_mixed"
proof -
  let ?t2 = "\<lparr>columns = [PStr ''a''], data = [[PNum 1], [PStr ''x'']],
              column_types = DictType [(PStr ''a'',
                UnionType [PrimitiveType KNumber, PrimitiveType KString])],
              media = ()\<rparr> :: (string, unit) table"
  have r: "add_rows spec_dtypes ?t2 (replicate 199999 [PStr ''x''])
     = (Inr (), ?t2\<lparr>data := data ?t2 @ replicate 199999 [PStr ''x'']\<rparr>)"
    by (rule add_rows_union_strings) simp_all
  show ?thesis
    by (simp add: t_mixed_def init_from_list_def make_column_types_def cast_def
          set_type_map_def add_data_def validate_data_def spec_dtypes_def Let_def)
       (simp add: r [simplified] spec_dtypes_def [symmetric])
qed


lemma decode_rows_plain:
  "\<forall>row \<in> set rows. decode_row cd src row = Inr row \<Longrightarrow>
   decode_rows cd src (map PList rows) = Inr rows"
  by (induction rows) auto

lemma from_json_init_raises:
  assumes "json_get j ''data'' = Some (PList jrows)"
    and "json_get j ''columns'' = Some (PList cs)"
    and "decode_rows cd src jrows = Inr rows"
    and "Table_init dt (media_init cd) (Some cs) rows = Inl e"
  shows "from_json dt cd j src = Inl e"
  using assms by (simp add: from_json_def json_get_def)

text \<open>
  Claim C3 does not hold of the code. \<open>from_json\<close> builds the table with the default column
  types, which validates every row again against \<open>Optional(Unknown)\<close>, and installs the stored
  column types only afterwards. For \<open>t_mixed\<close>, which has more than \<open>MAX_ARTIFACT_ROWS\<close> rows,
  \<open>to_json\<close> toward the artifact returns its JSON, and \<open>from_json\<close> on that JSON raises the
  type error of \<open>add_data\<close> at the second row instead of returning a table equal to the
  first \<open>MAX_ARTIFACT_ROWS\<close> rows.
\<close>

theorem roundtrip_mixed_raises:
  "(\<exists>j. to_json spec_codec t_mixed (Artifact []) = ([Warning_truncating 200000], Inr j, Artifact [])
        \<and> from_json spec_dtypes spec_codec j [] = Inl (TypeError_row ''cannot assign''))
   \<and> roundtrip spec_dtypes spec_codec spec_comparisons t_mixed []
        = Inl (TypeError_row ''cannot assign'')"
proof -
  define rows :: "string py list list"
    where "rows = [PNum 1] # [PStr ''x''] # replicate 199998 [PStr ''x'']"
  define j :: "(string py \<times> string py) list" where "j = dict_update []
     [(PStr ''_type'', PStr ''table''),
      (PStr ''columns'', PList [PStr ''a'']),
      (PStr ''data'', PList (map PList rows)),
      (PStr ''ncols'', PNum 1),
      (PStr ''nrows'', PNum (int (length rows))),
      (PStr ''column_types'', enc (column_types t_mixed))]"
  have tk: "take MAX_ARTIFACT_ROWS (data t_mixed) = rows"
    by (simp add: t_mixed_def MAX_ARTIFACT_ROWS_def rows_def)
  have big: "MAX_ARTIFACT_ROWS < length (data t_mixed)"
    by (simp add: t_mixed_def MAX_ARTIFACT_ROWS_def)
  have m: "media_to_json_artifact spec_codec u [] = (Inr [], [])" for u
    by (simp add: spec_codec_def)
  have cc: "check_columns (columns t_mixed) = None"
    by (simp add: t_mixed_def)
  have cols: "columns t_mixed = [PStr ''a'']"
    by (simp add: t_mixed_def)
  have plain: "\<forall>x \<in> set rows. \<forall>a. map_loop (json_helper spec_codec) x a = (Inr ((\<lambda>r. r) x), a)"
    by (auto simp: rows_def spec_codec_def)
  have mr: "map_rows spec_codec rows [] = (Inr rows, [])"
    unfolding map_rows_def using map_loop_pure [OF plain, of "[]"] by simp
  have tt: "type_to_json spec_codec ct b = (Inr (enc ct), b)" for ct b
    by (simp add: spec_codec_def)
  have ser: "to_json spec_codec t_mixed (Artifact []) = ([Warning_truncating 200000], Inr j, Artifact [])"
    by (simp add: m cc tk mr tt big cols to_table_json_def Let_def j_def)
       (simp add: MAX_ARTIFACT_ROWS_def)
  have jd: "json_get j ''data'' = Some (PList (map PList rows))"
    by (simp add: j_def json_get_def dict_update_def)
  have jc: "json_get j ''columns'' = Some (PList [PStr ''a''])"
    by (simp add: j_def json_get_def dict_update_def)
  have "\<forall>row \<in> set rows. decode_row spec_codec [] row = Inr row"
    by (auto simp: rows_def decode_cell_def)
  then have dr: "decode_rows spec_codec [] (map PList rows) = Inr rows"
    by (rule decode_rows_plain)
  have ini: "Table_init spec_dtypes u (Some [PStr ''a'']) rows = Inl (TypeError_row ''cannot assign'')"
    for u :: unit
    by (simp add: rows_def Table_init_def init_from_list_def make_column_types_def cast_def
          set_type_map_def add_data_def validate_data_def spec_dtypes_def Let_def)
  have fj: "from_json spec_dtypes spec_codec j [] = Inl (TypeError_row ''cannot assign'')"
    by (rule from_json_init_raises [OF jd jc dr ini])
  from ser fj have "roundtrip spec_dtypes spec_codec spec_comparisons t_mixed []
        = Inl (TypeError_row ''cannot assign'')"
    by (simp add: roundtrip_def)
  with ser fj show ?thesis by blast
qed

section \<open>Properties of PartitionedTable.iterrows\<close>

lemma yields_append: "yields (tr @ tr') = yields tr @ yields tr'"
  by (induction tr rule: yields.induct) auto

lemma raised_append:
  "raised (tr @ tr') = (case raised tr of None \<Rightarrow> raised tr' | Some e \<Rightarrow> Some e)"
  by (induction tr rule: raised.induct) auto

lemma numbered_Nil: "numbered n [] = []"
  by (simp add: numbered_def)

lemma numbered_Cons: "numbered n (x # xs) = (n, x) # numbered (Suc n) xs"
proof -
  have "[n ..< n + length (x # xs)] = n # [Suc n ..< Suc n + length xs]"
    by (subst upt_rec) simp
  then show ?thesis
    by (simp only: numbered_def zip_Cons_Cons)
qed

lemma numbered_append:
  "numbered n (xs @ ys) = numbered n xs @ numbered (n + length xs) ys"
proof (induction xs arbitrary: n)
  case Nil
  then show ?case by (simp add: numbered_Nil)
next
  case (Cons x xs)
  then show ?case by (simp add: numbered_Cons)
qed

lemma yields_yield_rows: "yields (yield_rows n rows pt) = numbered n rows"
  by (induction rows arbitrary: n) (simp_all add: numbered_Cons numbered_Nil)

lemma raised_yield_rows: "raised (yield_rows n rows pt) = None"
  by (induction rows arbitrary: n) auto


lemma all_free_map_of:
  "all_free pt \<Longrightarrow> p \<in> fst ` set pt \<Longrightarrow> map_of pt p = Some None"
  by (induction pt) (auto simp: all_free_def)



lemma get_part_free:
  assumes "all_free pt" "p \<in> fst ` set pt"
  shows "get_part src pt p = AList.update p (src p) pt"
  using all_free_map_of [OF assms] by (simp add: get_part_def)

lemma free_loaded:
  assumes "all_free pt" "p \<in> fst ` set pt"
  shows "free (AList.update p v pt) p = pt"
  using all_free_map_of [OF assms] by (simp add: free_def update_conv' update_triv)

lemma iter_parts_step:
  assumes fr: "all_free pt" and p: "p \<in> fst ` set pt" and s: "src p = Some t"
    and c: "cols = None \<or> cols = Some (columns t)"
  shows "iter_parts src (p # ps) cols n pt =
           (Got p, AList.update p (Some t) pt) # yield_rows n (data t) (AList.update p (Some t) pt)
             @ (Freed p, pt) # iter_parts src ps (Some (columns t)) (n + length (data t)) pt"
  using c get_part_free [OF fr p, of src] free_loaded [OF fr p, of "Some t"] s
  by (auto simp: update_conv' Let_def)

lemma iter_parts_mismatch:
  assumes fr: "all_free pt" and p: "p \<in> fst ` set pt" and s: "src p = Some t"
    and c: "c \<noteq> columns t"
  shows "iter_parts src (p # ps) (Some c) n pt =
           [(Got p, AList.update p (Some t) pt),
            (Raised (ValueError_parts c (columns t)), AList.update p (Some t) pt)]"
  using c get_part_free [OF fr p, of src] s
  by (auto simp: update_conv' Let_def)


text \<open>
  A completed iteration leaves the entries as it found them, with no part in memory.
\<close>

lemma iter_parts_final:
  assumes fr: "all_free pt"
    and ps: "set ps \<subseteq> fst ` set pt"
    and same: "\<forall>p \<in> set ps. \<exists>t. src p = Some t \<and> columns t = c"
    and cols: "cols = None \<or> cols = Some c"
    and ne: "ps \<noteq> []"
  shows "snd (last (iter_parts src ps cols n pt)) = pt"
  using ps same cols ne
proof (induction ps arbitrary: cols n)
  case Nil
  then show ?case by simp
next
  case (Cons p ps)
  from Cons.prems obtain t where t: "src p = Some t" "columns t = c" by auto
  from Cons.prems have p: "p \<in> fst ` set pt" by auto
  from Cons.prems t have c: "cols = None \<or> cols = Some (columns t)" by simp
  have step: "iter_parts src (p # ps) cols n pt =
           (Got p, AList.update p (Some t) pt) # yield_rows n (data t) (AList.update p (Some t) pt)
             @ (Freed p, pt) # iter_parts src ps (Some (columns t)) (n + length (data t)) pt"
    by (rule iter_parts_step [where src = src and p = p and t = t, OF fr p t(1) c])
  show ?case
  proof (cases "ps = []")
    case True
    with step show ?thesis by (simp del: iter_parts.simps(2))
  next
    case False
    with Cons.IH [of "Some (columns t)" "n + length (data t)"] Cons.prems t
    have IH: "snd (last (iter_parts src ps (Some (columns t)) (n + length (data t)) pt)) = pt"
      by auto
    from False obtain q qs where "ps = q # qs" by (cases ps) auto
    then have "iter_parts src ps (Some (columns t)) (n + length (data t)) pt \<noteq> []"
      by (auto simp: Let_def split: option.splits)
    with IH step show ?thesis by (simp del: iter_parts.simps(2))
  qed
qed








lemma iter_parts_diverge:
  assumes fr: "all_free pt"
    and keys: "set ps1 \<subseteq> fst ` set pt" "q \<in> fst ` set pt"
    and same: "\<forall>p \<in> set ps1. \<exists>t. src p = Some t \<and> columns t = c"
    and q: "src q = Some tq" "columns tq \<noteq> c"
    and cols: "cols = Some c \<or> (cols = None \<and> ps1 \<noteq> [])"
  shows "\<exists>tr st. iter_parts src (ps1 @ q # ps2) cols n pt
             = tr @ [(Got q, st), (Raised (ValueError_parts c (columns tq)), st)]
           \<and> raised tr = None
           \<and> yields tr = numbered n (parts_rows src ps1)"
  using keys(1) same cols
proof (induction ps1 arbitrary: cols n)
  case Nil
  then have "cols = Some c" by simp
  with iter_parts_mismatch [where src = src and p = q and t = tq and c = c, OF fr keys(2) q(1)] q(2)
  have "iter_parts src ([] @ q # ps2) cols n pt
     = [] @ [(Got q, AList.update q (Some tq) pt),
             (Raised (ValueError_parts c (columns tq)), AList.update q (Some tq) pt)]"
    by (simp del: iter_parts.simps)
  moreover have "raised ([] :: ('a event \<times> ('a, 'b) parts) list) = None" by simp
  moreover have "yields ([] :: ('a event \<times> ('a, 'b) parts) list) = numbered n (parts_rows src [])"
    by (simp add: parts_rows_def numbered_Nil)
  ultimately show ?case by blast
next
  case (Cons p ps1)
  from Cons.prems obtain t where t: "src p = Some t" "columns t = c" by auto
  from Cons.prems have p: "p \<in> fst ` set pt" by auto
  let ?pt1 = "AList.update p (Some t) pt"
  from Cons.prems t have c: "cols = None \<or> cols = Some (columns t)" by auto
  have step: "iter_parts src (p # (ps1 @ q # ps2)) cols n pt =
           (Got p, ?pt1) # yield_rows n (data t) ?pt1
             @ (Freed p, pt) # iter_parts src (ps1 @ q # ps2) (Some (columns t)) (n + length (data t)) pt"
    by (rule iter_parts_step [where src = src and p = p and t = t, OF fr p t(1) c])
  from Cons.IH [of "Some c" "n + length (data t)"] Cons.prems
  obtain tr st where tr:
    "iter_parts src (ps1 @ q # ps2) (Some c) (n + length (data t)) pt
       = tr @ [(Got q, st), (Raised (ValueError_parts c (columns tq)), st)]"
    "raised tr = None"
    "yields tr = numbered (n + length (data t)) (parts_rows src ps1)"
    by auto
  let ?tr = "(Got p, ?pt1) # yield_rows n (data t) ?pt1 @ (Freed p, pt) # tr"
  have rows: "parts_rows src (p # ps1) = data t @ parts_rows src ps1"
    by (simp add: parts_rows_def part_rows_def t)
  have "iter_parts src ((p # ps1) @ q # ps2) cols n pt
       = ?tr @ [(Got q, st), (Raised (ValueError_parts c (columns tq)), st)]"
    using step tr(1) t(2) by (simp del: iter_parts.simps)
  moreover have "raised ?tr = None"
    by (simp add: raised_append raised_yield_rows tr(2))
  moreover have "yields ?tr = numbered n (parts_rows src (p # ps1))"
    by (simp add: yields_append yields_yield_rows tr(3) rows numbered_append)
  ultimately show ?case by blast
qed

text \<open>
  Claim C9. Let no part be in memory at the start, let the first parts (at least one) have
  the same columns, and let the next part have other columns. Then \<open>iterrows\<close> yields the
  rows of the parts before it, under continuous indices and without an error, fetches that
  part, and raises the error that names the columns of the first part and those of the part
  that differs; nothing follows.
\<close>

theorem iterrows_schema_mismatch:
  assumes "all_free pt"
    and "map fst pt = ps1 @ q # ps2"
    and "ps1 \<noteq> []"
    and "\<forall>p \<in> set ps1. \<exists>t. src p = Some t \<and> columns t = c"
    and "src q = Some tq"
    and "columns tq \<noteq> c"
  shows "\<exists>tr st. iterrows src pt
             = tr @ [(Got q, st), (Raised (ValueError_parts c (columns tq)), st)]
           \<and> raised tr = None
           \<and> yields tr = numbered 0 (parts_rows src ps1)"
proof -
  from assms(2) have k: "set ps1 \<subseteq> fst ` set pt" "q \<in> fst ` set pt"
    by (metis set_map set_append Un_upper1, metis set_map in_set_conv_decomp)
  from assms(3) have cols: "None = Some c \<or> (None = (None :: 'a py list option) \<and> ps1 \<noteq> [])"
    by simp
  from iter_parts_diverge [OF assms(1) k assms(4) assms(5) assms(6) cols, of ps2 0]
  show ?thesis by (simp add: iterrows_def assms(2))
qed

theorem iterrows_schema_mismatch_witness:
  "\<exists>tr st. iterrows src0 pt_bad
      = tr @ [(Got ''parts/3'', st),
              (Raised (ValueError_parts [PStr ''a'', PStr ''b''] [PStr ''a'', PStr ''z'']), st)]
    \<and> raised tr = None
    \<and> yields tr = [(0, [PNum 1, PStr ''x''])]"
proof -
  have fr: "all_free pt_bad"
    by (simp add: pt_bad_def add_part_entry_def all_free_def)
  have keys: "map fst pt_bad = [''parts/1''] @ ''parts/3'' # [''parts/2'']"
    by (simp add: pt_bad_def add_part_entry_def)
  have ne: "[''parts/1''] \<noteq> []" by simp
  have same: "\<forall>p \<in> set [''parts/1'']. \<exists>t. src0 p = Some t \<and> columns t = [PStr ''a'', PStr ''b'']"
    by (simp add: src0_def t_ab1_def)
  have q: "src0 ''parts/3'' = Some t_az"
    by (simp add: src0_def)
  have d: "columns t_az \<noteq> [PStr ''a'', PStr ''b'']"
    by (simp add: t_az_def)
  have c: "columns t_az = [PStr ''a'', PStr ''z'']"
    by (simp add: t_az_def)
  have rows: "numbered 0 (parts_rows src0 [''parts/1'']) = [(0, [PNum 1, PStr ''x''])]"
    by (simp add: numbered_def parts_rows_def part_rows_def src0_def t_ab1_def)
  from iterrows_schema_mismatch [OF fr keys ne same q d] c rows show ?thesis
    by simp
qed

text \<open>The entries that \<open>_add_part_entry\<close> builds have no part in memory.\<close>

lemma add_part_entry_all_free: "all_free pt \<Longrightarrow> all_free (add_part_entry pt p)"
  by (induction pt) (auto simp: all_free_def add_part_entry_def)

section \<open>Properties of bind_to_run\<close>

lemma bind_to_run_keeps:
  "bind_to_run sg t args w = (log, r, t', w') \<Longrightarrow> columns t' = columns t \<and> data t' = data t"
  by (auto simp: bind_to_run_def to_table_json_def split: sum.splits prod.splits)

lemma graph_bind_to_run_written:
  assumes "graph_bind_to_run sg g args w = (r, g', w')"
  shows "graph_json g' = graph_json g"
    and "\<exists>path. written w' = written w @ [(path, dumped sg (graph_json g))]"
proof -
  obtain r1 m1 w1 where
    sp: "stage_payload sg (graph_json g) ''.graph.json'' (gmedia g) w = (r1, m1, w1)"
    by (cases "stage_payload sg (graph_json g) ''.graph.json'' (gmedia g) w") auto
  from assms sp show "graph_json g' = graph_json g"
    by (auto simp: graph_bind_to_run_def split: sum.splits prod.splits if_splits)
  from assms sp have "written w' = written w1"
    by (auto simp: graph_bind_to_run_def split: sum.splits prod.splits if_splits)
  with stage_payload_written [OF sp]
  show "\<exists>path. written w' = written w @ [(path, dumped sg (graph_json g))]"
    by simp
qed

text \<open>
  Claim C5 does not hold of the code. Whatever the collaborators do, a second
  \<open>Table.bind_to_run\<close> stages the payload again: after the two calls the staging directory
  has two new files with the table. The same holds of \<open>Graph.bind_to_run\<close>, which asks
  \<open>is_bound\<close> only after it has staged. \<open>Table.bind_to_run\<close> does not consult \<open>is_bound\<close> at
  all: it is the same function whatever \<open>is_bound\<close> answers, so nothing gates the call of
  \<open>Media.bind_to_run\<close> that registers the value.
\<close>

theorem bind_to_run_not_idempotent:
  "(\<exists>p1 p2. written (snd (snd (snd (bind_twice sg t args w))))
        = written w @ [(p1, dumped sg (table_payload t MAX_ROWS)),
                       (p2, dumped sg (table_payload t MAX_ROWS))])
   \<and> (\<exists>p1 p2. written (snd (snd (graph_bind_twice sg g args w)))
        = written w @ [(p1, dumped sg (graph_json g)), (p2, dumped sg (graph_json g))])
   \<and> bind_to_run (sg\<lparr>is_bound := f\<rparr>) t args w = bind_to_run sg t args w"
proof (intro conjI)
  obtain log1 r1 t1 w1 where b1: "bind_to_run sg t args w = (log1, r1, t1, w1)"
    by (cases "bind_to_run sg t args w") auto
  obtain log2 r2 t2 w2 where b2: "bind_to_run sg t1 args w1 = (log2, r2, t2, w2)"
    by (cases "bind_to_run sg t1 args w1") auto
  from bind_to_run_keeps [OF b1] have "table_payload t1 MAX_ROWS = table_payload t MAX_ROWS"
    by (simp add: table_payload_def)
  with bind_to_run_written(2) [OF b1] bind_to_run_written(2) [OF b2] b1 b2
  show "\<exists>p1 p2. written (snd (snd (snd (bind_twice sg t args w))))
        = written w @ [(p1, dumped sg (table_payload t MAX_ROWS)),
                       (p2, dumped sg (table_payload t MAX_ROWS))]"
    by (auto simp: bind_twice_def)
next
  obtain r1 g1 w1 where b1: "graph_bind_to_run sg g args w = (r1, g1, w1)"
    by (cases "graph_bind_to_run sg g args w") auto
  obtain r2 g2 w2 where b2: "graph_bind_to_run sg g1 args w1 = (r2, g2, w2)"
    by (cases "graph_bind_to_run sg g1 args w1") auto
  from graph_bind_to_run_written [OF b1] graph_bind_to_run_written(2) [OF b2] b1 b2
  show "\<exists>p1 p2. written (snd (snd (graph_bind_twice sg g args w)))
        = written w @ [(p1, dumped sg (graph_json g)), (p2, dumped sg (graph_json g))]"
    by (auto simp: graph_bind_twice_def)
next
  show "bind_to_run (sg\<lparr>is_bound := f\<rparr>) t args w = bind_to_run sg t args w"
  proof -
    have "stage_payload (sg\<lparr>is_bound := f\<rparr>) p ext m w = stage_payload sg p ext m w" for p ext m
      by (simp add: stage_payload_def Let_def split: option.splits)
    then show ?thesis
      by (simp add: bind_to_run_def split: prod.splits sum.splits)
  qed
qed

text \<open>
  On the instance: two calls for the table of the scenario leave two staged files and two
  registrations with the run.
\<close>

lemma bind_twice_example:
  "length (written (snd (snd (snd (bind_twice spec_staging t_ab1 ''key'' world0))))) = 2
   \<and> run_state (snd (snd (snd (bind_twice spec_staging t_ab1 ''key'' world0)))) = [''key'', ''key'']"
  by (simp add: bind_twice_def bind_to_run_def stage_payload_def to_table_json_def
        spec_staging_def t_ab1_def world0_def MAX_ROWS_def Let_def)

end
